theory Spec2Isabelle
  imports Complex_Main "HOL-Library.Sublist" "HOL-Library.AList" "HOL-Library.Multiset"
begin

section \<open>Python values used by \<open>prepare_local.py\<close>\<close>

text \<open>
  The exceptions the script can raise, as values. \<open>KeyError\<close> carries what was looked up:
  a missing integer or string key of a dictionary, or the message built by
  \<open>extract_vmaf_score\<close>, whose variable part is the list of top-level keys of the report
  or the type of the report.
\<close>

datatype py_type = T_NoneType | T_bool | T_int | T_float | T_str | T_list | T_dict

datatype top_level = TopKeys "string list" | TopType py_type

datatype key_error = MissingInt int | MissingStr string | NoVmafScore top_level

datatype error =
    KeyError key_error
  | TypeError
  | ValueError
  | OverflowError
  | ZeroDivisionError
  | IndexError
  | AttributeError
  | RuntimeError string
  | FileNotFoundError string
  | ParseError string
  | CalledProcessError string

text \<open>
  A decoded JSON document, as \<open>json.loads\<close> returns it. A Python \<open>dict\<close> keeps its keys in
  insertion order, so an object is an association list; \<open>d[k]\<close> and \<open>k in d\<close> are
  \<open>map_of d k\<close>. The type \<open>'f\<close> stands for Python's \<open>float\<close>: the script only moves floats
  around, converts to them, subtracts and divides them, and these operations are
  parameters (record \<open>py_num\<close>), so nothing below depends on how floats round.
\<close>

datatype 'f json =
    JNull
  | JBool bool
  | JInt int
  | JFloat 'f
  | JStr string
  | JList "'f json list"
  | JDict "(string \<times> 'f json) list"

text \<open>
  Python's numeric builtins. \<open>float_of_int n\<close> is \<open>float(n)\<close> (\<open>None\<close>: OverflowError),
  \<open>float_of_str s\<close> is \<open>float(s)\<close> and \<open>int_of_str s\<close> is \<open>int(s)\<close> (\<open>None\<close>: ValueError),
  \<open>true_div a b\<close> is \<open>a / b\<close> on integers with \<open>b\<close> non-zero (\<open>None\<close>: OverflowError),
  \<open>float_sub\<close> is \<open>-\<close> on floats and \<open>str_of_float\<close> is the text an f-string prints.
\<close>

record 'f py_num =
  float_of_int :: "int \<Rightarrow> 'f option"
  float_of_str :: "string \<Rightarrow> 'f option"
  int_of_str :: "string \<Rightarrow> int option"
  true_div :: "int \<Rightarrow> int \<Rightarrow> 'f option"
  float_sub :: "'f \<Rightarrow> 'f \<Rightarrow> 'f"
  str_of_float :: "'f \<Rightarrow> string"

fun py_type_of :: "'f json \<Rightarrow> py_type" where
  "py_type_of JNull = T_NoneType"
| "py_type_of (JBool b) = T_bool"
| "py_type_of (JInt n) = T_int"
| "py_type_of (JFloat x) = T_float"
| "py_type_of (JStr s) = T_str"
| "py_type_of (JList xs) = T_list"
| "py_type_of (JDict d) = T_dict"

text \<open>\<open>float(x)\<close>. A \<open>bool\<close> is an \<open>int\<close> in Python; \<open>None\<close>, lists and dicts raise TypeError.\<close>

fun py_float :: "'f py_num \<Rightarrow> 'f json \<Rightarrow> error + 'f" where
  "py_float N (JFloat x) = Inr x"
| "py_float N (JInt n) = (case float_of_int N n of None \<Rightarrow> Inl OverflowError | Some x \<Rightarrow> Inr x)"
| "py_float N (JBool b) =
     (case float_of_int N (if b then 1 else 0) of None \<Rightarrow> Inl OverflowError | Some x \<Rightarrow> Inr x)"
| "py_float N (JStr s) = (case float_of_str N s of None \<Rightarrow> Inl ValueError | Some x \<Rightarrow> Inr x)"
| "py_float N JNull = Inl TypeError"
| "py_float N (JList xs) = Inl TypeError"
| "py_float N (JDict d) = Inl TypeError"

text \<open>\<open>isinstance(val, (int, float))\<close>; it holds of a \<open>bool\<close> as well.\<close>

fun is_int_or_float :: "'f json \<Rightarrow> bool" where
  "is_int_or_float (JInt n) = True"
| "is_int_or_float (JFloat x) = True"
| "is_int_or_float (JBool b) = True"
| "is_int_or_float JNull = False"
| "is_int_or_float (JStr s) = False"
| "is_int_or_float (JList xs) = False"
| "is_int_or_float (JDict d) = False"

text \<open>
  \<open>str.lower\<close> on the ASCII letters. No character outside ASCII lower-cases to one of the
  letters of \<open>vmaf_score\<close>, so membership in \<open>("vmaf_score", "vmaf")\<close> is decided by
  this table.
\<close>

definition lower_char :: "char \<Rightarrow> char" where
  "lower_char c =
     (case map_of (zip ''ABCDEFGHIJKLMNOPQRSTUVWXYZ'' ''abcdefghijklmnopqrstuvwxyz'') c of
        None \<Rightarrow> c | Some d \<Rightarrow> d)"

definition lower :: "string \<Rightarrow> string" where
  "lower s = map lower_char s"

section \<open>\<open>extract_vmaf_score\<close>\<close>

text \<open>
  Steps 1 to 3 of \<open>extract_vmaf_score\<close>. Each returns \<open>Some r\<close> when the step leaves the
  function (with the value or the exception \<open>r\<close>) and \<open>None\<close> when control falls
  through to the next step.
\<close>

definition schema_aggregate :: "'f py_num \<Rightarrow> 'f json \<Rightarrow> (error + 'f) option" where
  "schema_aggregate N v =
     (case v of
        JDict d \<Rightarrow>
          (case map_of d ''aggregate'' of
             Some (JDict agg) \<Rightarrow>
               (case map_of agg ''VMAF_score'' of
                  Some x \<Rightarrow> Some (py_float N x)
                | None \<Rightarrow>
                    (case map_of agg ''VMAF'' of
                       Some x \<Rightarrow> Some (py_float N x)
                     | None \<Rightarrow> None))
           | _ \<Rightarrow> None)
      | _ \<Rightarrow> None)"

text \<open>\<open>for k in (...): if k in vv: return float(vv[k])\<close>\<close>

fun first_present :: "string list \<Rightarrow> (string \<times> 'f json) list \<Rightarrow> 'f json option" where
  "first_present [] vv = None"
| "first_present (k # ks) vv =
     (case map_of vv k of Some x \<Rightarrow> Some x | None \<Rightarrow> first_present ks vv)"

definition schema_pooled :: "'f py_num \<Rightarrow> 'f json \<Rightarrow> (error + 'f) option" where
  "schema_pooled N v =
     (case v of
        JDict d \<Rightarrow>
          (case map_of d ''pooled_metrics'' of
             Some (JDict pm) \<Rightarrow>
               (case map_of pm ''vmaf'' of
                  Some (JDict vv) \<Rightarrow>
                    (case first_present [''mean'', ''harmonic_mean'', ''min'', ''max''] vv of
                       Some x \<Rightarrow> Some (py_float N x)
                     | None \<Rightarrow> None)
                | _ \<Rightarrow> None)
           | _ \<Rightarrow> None)
      | _ \<Rightarrow> None)"

definition schema_metrics :: "'f py_num \<Rightarrow> 'f json \<Rightarrow> (error + 'f) option" where
  "schema_metrics N v =
     (case v of
        JDict d \<Rightarrow>
          (case map_of d ''metrics'' of
             Some (JDict m) \<Rightarrow>
               (case map_of m ''vmaf'' of
                  Some (JDict mv) \<Rightarrow>
                    (case map_of mv ''mean'' of
                       Some x \<Rightarrow> Some (py_float N x)
                     | None \<Rightarrow> None)
                | _ \<Rightarrow> None)
           | _ \<Rightarrow> None)
      | _ \<Rightarrow> None)"

text \<open>
  Step 4, the local function \<open>walk\<close>: \<open>walk_items\<close> is its loop over \<open>x.items()\<close> and
  \<open>walk_elems\<close> its loop over a list. \<open>Inr None\<close> is the return value \<open>None\<close>.
\<close>

definition score_key :: "string \<Rightarrow> bool" where
  "score_key k = (lower k = ''vmaf_score'' \<or> lower k = ''vmaf'')"

fun walk :: "'f py_num \<Rightarrow> 'f json \<Rightarrow> error + 'f option"
and walk_items :: "'f py_num \<Rightarrow> (string \<times> 'f json) list \<Rightarrow> error + 'f option"
and walk_elems :: "'f py_num \<Rightarrow> 'f json list \<Rightarrow> error + 'f option" where
  "walk N (JDict d) = walk_items N d"
| "walk N (JList xs) = walk_elems N xs"
| "walk N JNull = Inr None"
| "walk N (JBool b) = Inr None"
| "walk N (JInt n) = Inr None"
| "walk N (JFloat x) = Inr None"
| "walk N (JStr s) = Inr None"
| "walk_items N [] = Inr None"
| "walk_items N ((k, val) # d) =
     (if score_key k \<and> is_int_or_float val then
        (case py_float N val of Inl e \<Rightarrow> Inl e | Inr r \<Rightarrow> Inr (Some r))
      else
        (case walk N val of
           Inl e \<Rightarrow> Inl e
         | Inr (Some r) \<Rightarrow> Inr (Some r)
         | Inr None \<Rightarrow> walk_items N d))"
| "walk_elems N [] = Inr None"
| "walk_elems N (it # its) =
     (case walk N it of
        Inl e \<Rightarrow> Inl e
      | Inr (Some r) \<Rightarrow> Inr (Some r)
      | Inr None \<Rightarrow> walk_elems N its)"

text \<open>\<open>list(v.keys()) if isinstance(v, dict) else type(v)\<close>\<close>

definition top_level_of :: "'f json \<Rightarrow> top_level" where
  "top_level_of v = (case v of JDict d \<Rightarrow> TopKeys (map fst d) | _ \<Rightarrow> TopType (py_type_of v))"

definition extract_vmaf_score :: "'f py_num \<Rightarrow> 'f json \<Rightarrow> error + 'f" where
  "extract_vmaf_score N v =
     (case schema_aggregate N v of
        Some r \<Rightarrow> r
      | None \<Rightarrow>
     (case schema_pooled N v of
        Some r \<Rightarrow> r
      | None \<Rightarrow>
     (case schema_metrics N v of
        Some r \<Rightarrow> r
      | None \<Rightarrow>
     (case walk N v of
        Inl e \<Rightarrow> Inl e
      | Inr (Some r) \<Rightarrow> Inr r
      | Inr None \<Rightarrow> Inl (KeyError (NoVmafScore (top_level_of v)))))))"


text \<open>
  All numeric values under a score key, in the order of a depth-first traversal: an
  object's entries in their order, each entry before what is nested in it, and a list's
  elements in their order. This follows the description of the generic search, not the
  code; \<open>walk\<close> is compared with it below.
\<close>

fun score_values :: "'f json \<Rightarrow> 'f json list"
and score_values_items :: "(string \<times> 'f json) list \<Rightarrow> 'f json list"
and score_values_elems :: "'f json list \<Rightarrow> 'f json list" where
  "score_values (JDict d) = score_values_items d"
| "score_values (JList xs) = score_values_elems xs"
| "score_values JNull = []"
| "score_values (JBool b) = []"
| "score_values (JInt n) = []"
| "score_values (JFloat x) = []"
| "score_values (JStr s) = []"
| "score_values_items [] = []"
| "score_values_items ((k, val) # d) =
     (if score_key k \<and> is_int_or_float val then [val] else [])
       @ score_values val @ score_values_items d"
| "score_values_elems [] = []"
| "score_values_elems (it # its) = score_values it @ score_values_elems its"

definition first_score :: "'f py_num \<Rightarrow> 'f json list \<Rightarrow> error + 'f option" where
  "first_score N cs =
     (case cs of
        [] \<Rightarrow> Inr None
      | c # _ \<Rightarrow> (case py_float N c of Inl e \<Rightarrow> Inl e | Inr r \<Rightarrow> Inr (Some r)))"

section \<open>Strings, paths and the outside world\<close>

text \<open>An integer in an f-string: \<open>str(n)\<close>.\<close>

fun digits :: "nat \<Rightarrow> string" where
  "digits n =
     (if n < 10 then [''0123456789'' ! n]
      else digits (n div 10) @ [''0123456789'' ! (n mod 10)])"

declare digits.simps [simp del]

definition str_int :: "int \<Rightarrow> string" where
  "str_int i = (if i < 0 then ''-'' @ digits (nat (- i)) else digits (nat i))"

text \<open>
  \<open>s.split(sep)\<close> for a separator that is not empty: the pieces between the occurrences
  of \<open>sep\<close>, found from the left and not overlapping. \<open>acc\<close> holds the current piece,
  reversed. Python raises ValueError on an empty separator (\<open>py_split\<close>).
\<close>

function split_from :: "string \<Rightarrow> string \<Rightarrow> string \<Rightarrow> string list" where
  "split_from sep acc s =
     (if sep = [] \<or> s = [] then [rev acc]
      else if prefix sep s then rev acc # split_from sep [] (drop (length sep) s)
      else split_from sep (hd s # acc) (tl s))"
  by pat_completeness auto
termination
  by (relation "measure (\<lambda>(sep, acc, s). length s)") auto

declare split_from.simps [simp del]

definition py_split :: "string \<Rightarrow> string \<Rightarrow> error + string list" where
  "py_split sep s = (if sep = [] then Inl ValueError else Inr (split_from sep [] s))"

text \<open>\<open>sep.join(xs)\<close>\<close>

fun py_join :: "string \<Rightarrow> string list \<Rightarrow> string" where
  "py_join sep [] = []"
| "py_join sep [x] = x"
| "py_join sep (x # y # ys) = x @ sep @ py_join sep (y # ys)"

text \<open>\<open>sub in s\<close> on strings.\<close>

fun contains :: "string \<Rightarrow> string \<Rightarrow> bool" where
  "contains sub [] = (sub = [])"
| "contains sub (c # cs) = (prefix sub (c # cs) \<or> contains sub cs)"

text \<open>\<open>xs[i]\<close> for an index that is not negative.\<close>

definition py_nth :: "'a list \<Rightarrow> nat \<Rightarrow> error + 'a" where
  "py_nth xs i = (if i < length xs then Inr (xs ! i) else Inl IndexError)"

text \<open>Sequencing of steps that may raise: the first exception ends the computation.\<close>

definition bindE :: "error + 'a \<Rightarrow> ('a \<Rightarrow> error + 'b) \<Rightarrow> error + 'b" where
  "bindE m f = (case m of Inl e \<Rightarrow> Inl e | Inr x \<Rightarrow> f x)"

text \<open>\<open>get_attr(raw_xml, attr) = raw_xml.split(attr)[1].split('"')[1]\<close>\<close>

definition get_attr :: "string \<Rightarrow> string \<Rightarrow> error + string" where
  "get_attr raw_xml attr =
     bindE (py_split attr raw_xml) (\<lambda>parts.
     bindE (py_nth parts 1) (\<lambda>rest.
     bindE (py_split [CHR 0x22] rest) (\<lambda>quoted.
     py_nth quoted 1)))"

text \<open>\<open>int(s)\<close> and \<open>a / b\<close> on integers.\<close>

definition py_int :: "'f py_num \<Rightarrow> string \<Rightarrow> error + int" where
  "py_int N s = (case int_of_str N s of None \<Rightarrow> Inl ValueError | Some n \<Rightarrow> Inr n)"

definition py_truediv :: "'f py_num \<Rightarrow> int \<Rightarrow> int \<Rightarrow> error + 'f" where
  "py_truediv N a b =
     (if b = 0 then Inl ZeroDivisionError
      else case true_div N a b of None \<Rightarrow> Inl OverflowError | Some x \<Rightarrow> Inr x)"

text \<open>\<open>max(xs)\<close>: ValueError on an empty sequence.\<close>

definition py_max :: "int list \<Rightarrow> error + int" where
  "py_max xs = (case xs of [] \<Rightarrow> Inl ValueError | x # ys \<Rightarrow> Inr (fold max ys x))"

text \<open>\<open>xs.index(x)\<close>: the first position of \<open>x\<close>, ValueError when it is absent.\<close>

fun py_index :: "'a list \<Rightarrow> 'a \<Rightarrow> error + nat" where
  "py_index [] x = Inl ValueError"
| "py_index (y # ys) x =
     (if y = x then Inr 0
      else case py_index ys x of Inl e \<Rightarrow> Inl e | Inr i \<Rightarrow> Inr (Suc i))"

text \<open>\<open>d[k]\<close> on a dictionary with integer keys.\<close>

definition lookup_int :: "(int \<times> 'v) list \<Rightarrow> int \<Rightarrow> error + 'v" where
  "lookup_int d k = (case map_of d k of None \<Rightarrow> Inl (KeyError (MissingInt k)) | Some v \<Rightarrow> Inr v)"

text \<open>
  \<open>os.path.join(a, b)\<close> for a relative \<open>b\<close> (every second argument in the script is a
  file name).
\<close>

definition path_join :: "string \<Rightarrow> string \<Rightarrow> string" where
  "path_join a b =
     (if a = [] then b else if last a = CHR ''/'' then a @ b else a @ ''/'' @ b)"

text \<open>
  The world outside the script. The file system maps the path of a regular file to its
  content; directories are implicit in the paths, so \<open>os.makedirs\<close> changes nothing
  and writing a file always succeeds. \<open>cmds\<close> lists the shell commands that have run,
  in order.

  Whatever a shell command does is not the script's: \<open>sh cmd fs\<close> is the
  standard output of \<open>cmd\<close> and the file system it leaves, or \<open>None\<close> when it exits
  with a non-zero status. The XML and JSON libraries are parameters as well:
  \<open>xml_parse\<close> reads the content of a file (\<open>None\<close>: ParseError), \<open>xml_tostring\<close>
  serialises a tree; \<open>json_loads\<close> decodes a document (\<open>None\<close>: a decoding error,
  which is a ValueError) and \<open>json_dumps\<close> encodes the per-segment record.
\<close>

type_synonym fs = "string \<rightharpoonup> string"

record world =
  files :: fs
  cmds :: "string list"

datatype xml = Elem (tag: string) (attrib: "(string \<times> string) list") (children: "xml list")

record 'f seg_entry =
  start_time :: 'f
  vmaf :: "'f option"

type_synonym 'f seg_info = "(int \<times> 'f seg_entry) list"

record dims =
  width :: int
  height :: int

record 'f tools =
  sh :: "string \<Rightarrow> fs \<Rightarrow> (string \<times> fs) option"
  abspath :: "string \<Rightarrow> string"
  xml_parse :: "string \<Rightarrow> xml option"
  xml_tostring :: "xml \<Rightarrow> string"
  json_loads :: "string \<Rightarrow> 'f json option"
  json_dumps :: "(int \<times> 'f seg_info) list \<Rightarrow> string"

definition isfile :: "world \<Rightarrow> string \<Rightarrow> bool" where
  "isfile w p = (files w p \<noteq> None)"

definition read_file :: "world \<Rightarrow> string \<Rightarrow> error + string" where
  "read_file w p = (case files w p of None \<Rightarrow> Inl (FileNotFoundError p) | Some c \<Rightarrow> Inr c)"

definition write_file :: "string \<Rightarrow> string \<Rightarrow> world \<Rightarrow> world" where
  "write_file p c w = w\<lparr>files := (files w)(p \<mapsto> c)\<rparr>"

definition run_cmd :: "'f tools \<Rightarrow> string \<Rightarrow> world \<Rightarrow> error + (string \<times> world)" where
  "run_cmd T cmd w =
     (case sh T cmd (files w) of
        None \<Rightarrow> Inl (CalledProcessError cmd)
      | Some (out, fs') \<Rightarrow> Inr (out, \<lparr>files = fs', cmds = cmds w @ [cmd]\<rparr>))"

definition ensure_dir :: "string \<Rightarrow> world \<Rightarrow> world" where
  "ensure_dir p w = w"

definition rm :: "'f tools \<Rightarrow> string \<Rightarrow> world \<Rightarrow> error + world" where
  \<open>rm T p w = bindE (run_cmd T (''rm -rf "'' @ p @ ''" || true'') w) (\<lambda>(out, w'). Inr w')\<close>



lemma bindE_cong [fundef_cong]:
  "m = m' \<Longrightarrow> (\<And>x. m' = Inr x \<Longrightarrow> f x = f' x) \<Longrightarrow> bindE m f = bindE m' f'"
  by (cases m') (simp_all add: bindE_def)

section \<open>\<open>transcode_h264_reps\<close>\<close>

definition encode_cmd :: "string \<Rightarrow> string \<Rightarrow> int \<Rightarrow> int \<Rightarrow> int \<Rightarrow> string" where
  \<open>encode_cmd src_mp4 out_mp4 fps gop r =
     ''ffmpeg -y -i "'' @ src_mp4 @ ''" '' @
     ''-an -c:v libx264 -preset slow '' @
     ''-r '' @ str_int fps @ '' '' @
     ''-g '' @ str_int gop @ '' -keyint_min '' @ str_int gop @ '' -sc_threshold 0 '' @
     ''-b:v '' @ str_int r @ ''k -maxrate '' @ str_int (2 * r) @
       ''k -bufsize '' @ str_int (4 * r) @ ''k '' @
     ''"'' @ out_mp4 @ ''"''\<close>

definition rep_path :: "string \<Rightarrow> int \<Rightarrow> string" where
  "rep_path out_dir r = path_join out_dir (''rep_'' @ str_int r @ ''.mp4'')"

text \<open>The loop \<open>for r in rates_kbps\<close>, with \<open>out_map\<close> and the world as its state.\<close>

fun transcode_loop ::
  "'f tools \<Rightarrow> string \<Rightarrow> string \<Rightarrow> int \<Rightarrow> int \<Rightarrow> int list \<Rightarrow> (int \<times> string) list \<Rightarrow> world
     \<Rightarrow> error + ((int \<times> string) list \<times> world)" where
  "transcode_loop T src_mp4 out_dir fps gop [] out_map w = Inr (out_map, w)"
| "transcode_loop T src_mp4 out_dir fps gop (r # rs) out_map w =
     (let out_mp4 = rep_path out_dir r in
      if isfile w out_mp4 then
        transcode_loop T src_mp4 out_dir fps gop rs (AList.update r out_mp4 out_map) w
      else
        bindE (run_cmd T (encode_cmd src_mp4 out_mp4 fps gop r) w) (\<lambda>(out, w').
        transcode_loop T src_mp4 out_dir fps gop rs (AList.update r out_mp4 out_map) w'))"

definition transcode_h264_reps ::
  "'f tools \<Rightarrow> string \<Rightarrow> string \<Rightarrow> int list \<Rightarrow> int \<Rightarrow> int \<Rightarrow> world
     \<Rightarrow> error + ((int \<times> string) list \<times> world)" where
  "transcode_h264_reps T src_mp4 out_dir rates_kbps fps seg_s w =
     (let w1 = ensure_dir out_dir w;
          gop = fps * seg_s
      in transcode_loop T src_mp4 out_dir fps gop rates_kbps [] w1)"

section \<open>\<open>segment_rep\<close>\<close>

definition dash_cmd :: "string \<Rightarrow> int \<Rightarrow> string \<Rightarrow> string" where
  \<open>dash_cmd tmp seg_ms rep_abs =
     ''cd "'' @ tmp @ ''" && MP4Box -dash '' @ str_int seg_ms @
     '' -dash-profile live -rap -segment-name "" "'' @ rep_abs @ ''"''\<close>

definition count_cmd :: "string \<Rightarrow> string" where
  \<open>count_cmd segment_dir =
     ''ls "'' @ segment_dir @ ''" | grep -E "^[0-9]+'' @ [CHR 0x5C] @ ''.m4s$" | wc -l''\<close>

definition inspect_cmd :: "string \<Rightarrow> int \<Rightarrow> string" where
  \<open>inspect_cmd segment_dir seg =
     ''MP4Box -std -diso "'' @ segment_dir @ ''/'' @ str_int seg @
     ''.m4s" 2>&1 | grep "SegmentIndexBox"''\<close>

text \<open>
  The body of the loop over the chunks: the start time of chunk \<open>seg\<close>, read from the
  output of the inspection command.
\<close>

definition chunk_start ::
  "'f tools \<Rightarrow> 'f py_num \<Rightarrow> string \<Rightarrow> int \<Rightarrow> world \<Rightarrow> error + ('f \<times> world)" where
  "chunk_start T N segment_dir seg w =
     bindE (run_cmd T (inspect_cmd segment_dir seg) w) (\<lambda>(raw, w').
     bindE (get_attr raw ''timescale'') (\<lambda>ts.
     bindE (py_int N ts) (\<lambda>timescale.
     bindE (get_attr raw ''earliest_presentation_time'') (\<lambda>es.
     bindE (py_int N es) (\<lambda>earliest.
     bindE (py_truediv N earliest timescale) (\<lambda>start.
     Inr (start, w')))))))"

fun segment_times ::
  "'f tools \<Rightarrow> 'f py_num \<Rightarrow> string \<Rightarrow> int list \<Rightarrow> 'f seg_info \<Rightarrow> world
     \<Rightarrow> error + ('f seg_info \<times> world)" where
  "segment_times T N segment_dir [] seg_info w = Inr (seg_info, w)"
| "segment_times T N segment_dir (seg # segs) seg_info w =
     bindE (chunk_start T N segment_dir seg w) (\<lambda>(start, w').
     segment_times T N segment_dir segs
       (AList.update seg \<lparr>start_time = start, vmaf = None\<rparr> seg_info) w')"

definition segment_rep ::
  "'f tools \<Rightarrow> 'f py_num \<Rightarrow> string \<Rightarrow> string \<Rightarrow> int \<Rightarrow> int \<Rightarrow> world
     \<Rightarrow> error + ('f seg_info \<times> world)" where
  \<open>segment_rep T N video_name rep_mp4 rate seg_s w =
     (let segment_dir = ''videos/'' @ video_name @ ''/tracks/video_'' @ str_int rate;
          tmp = ''videos/'' @ video_name @ ''/tmp/mp4box_'' @ str_int rate;
          seg_ms = seg_s * 1000
      in
      bindE (rm T segment_dir w) (\<lambda>w1.
      bindE (rm T tmp (ensure_dir segment_dir w1)) (\<lambda>w2.
      bindE (run_cmd T (dash_cmd tmp seg_ms (abspath T rep_mp4)) (ensure_dir tmp w2)) (\<lambda>(o3, w3).
      bindE (run_cmd T
               (''mv "'' @ tmp @ ''"/*_dash.mpd "'' @ segment_dir @ ''/intermediate_dash.mpd"'')
               w3) (\<lambda>(o4, w4).
      bindE (run_cmd T
               (''mv "'' @ tmp @ ''/init.mp4" "'' @ segment_dir @ ''/init.mp4"'') w4) (\<lambda>(o5, w5).
      bindE (run_cmd T (''mv "'' @ tmp @ ''"/*.m4s "'' @ segment_dir @ ''/"'') w5) (\<lambda>(o6, w6).
      bindE (rm T tmp w6) (\<lambda>w7.
      bindE (run_cmd T (count_cmd segment_dir) w7) (\<lambda>(counted, w8).
      bindE (py_int N counted) (\<lambda>segments.
      segment_times T N segment_dir [1..segments] [] w8))))))))))\<close>



section \<open>\<open>build_common_manifest\<close>\<close>

text \<open>
  An element of the parsed manifest: its tag, its attributes in order and its children.
  \<open>e[i]\<close> is \<open>py_nth (children e) i\<close>, \<open>e.set(k, v)\<close> is \<open>set_attrib\<close>. The script changes
  elements in place; here the changed element is put back at its position
  (\<open>set_child\<close>), which is the same tree because no element is shared between two
  parents or two fragments.
\<close>

definition set_attrib :: "string \<Rightarrow> string \<Rightarrow> xml \<Rightarrow> xml" where
  "set_attrib k v e = Elem (tag e) (AList.update k v (attrib e)) (children e)"

definition set_child :: "xml \<Rightarrow> nat \<Rightarrow> xml \<Rightarrow> xml" where
  "set_child e i c = Elem (tag e) (attrib e) ((children e)[i := c])"

definition append_child :: "xml \<Rightarrow> xml \<Rightarrow> xml" where
  "append_child e c = Elem (tag e) (attrib e) (children e @ [c])"

text \<open>
  \<open>for child in root: if "Representation" in child.tag: representation = child\<close>: the
  position of the last child whose tag contains the word, \<open>None\<close> when there is none.
\<close>

fun find_representation :: "xml list \<Rightarrow> nat \<Rightarrow> nat option \<Rightarrow> nat option" where
  "find_representation [] i rep = rep"
| "find_representation (child # rest) i rep =
     find_representation rest (Suc i)
       (if contains ''Representation'' (tag child) then Some i else rep)"

text \<open>\<open>int(e.get(k))\<close>: \<open>e.get\<close> gives \<open>None\<close> for a missing attribute and \<open>int(None)\<close> raises.\<close>

definition int_attrib :: "'f py_num \<Rightarrow> xml \<Rightarrow> string \<Rightarrow> error + int" where
  "int_attrib N e k = (case map_of (attrib e) k of None \<Rightarrow> Inl TypeError | Some s \<Rightarrow> py_int N s)"

definition strip_initialization :: "string \<Rightarrow> string" where
  "strip_initialization content =
     py_join [CHR 0x0A]
       (filter (\<lambda>l. \<not> contains ''Initialization'' l) (split_from [CHR 0x0A] [] content))"

definition parse_file :: "'f tools \<Rightarrow> world \<Rightarrow> string \<Rightarrow> error + xml" where
  "parse_file T w p =
     bindE (read_file w p) (\<lambda>c.
     case xml_parse T c of None \<Rightarrow> Inl (ParseError p) | Some tree \<Rightarrow> Inr tree)"

text \<open>\<open>sorted(rates).index(rate)\<close> and the identifier made of it.\<close>

definition rank :: "int list \<Rightarrow> int \<Rightarrow> error + nat" where
  "rank rates rate = py_index (sort rates) rate"

definition rep_id :: "nat \<Rightarrow> string" where
  "rep_id pl = ''video'' @ str_int (int pl)"

text \<open>\<open>base[1][0].append(representation)\<close>\<close>

definition append_representation :: "xml \<Rightarrow> xml \<Rightarrow> error + xml" where
  "append_representation base rep =
     bindE (py_nth (children base) 1) (\<lambda>period.
     bindE (py_nth (children period) 0) (\<lambda>aset.
     Inr (set_child base 1 (set_child period 0 (append_child aset rep)))))"

text \<open>
  The body of the loop \<open>for rate in rates\<close>. Its state is \<open>base\<close> (\<open>None\<close> until the
  first fragment has been read), \<open>info\<close> and the world.
\<close>

definition merge_fragment ::
  "'f tools \<Rightarrow> 'f py_num \<Rightarrow> string \<Rightarrow> int list \<Rightarrow> int
     \<Rightarrow> xml option \<times> (int \<times> dims) list \<times> world
     \<Rightarrow> error + (xml option \<times> (int \<times> dims) list \<times> world)" where
  \<open>merge_fragment T N tracks_dir rates rate st =
     (case st of (base, info, w) \<Rightarrow>
      let segment_dir = tracks_dir @ ''/video_'' @ str_int rate;
          manifest = segment_dir @ ''/intermediate_dash.mpd''
      in
      bindE (read_file w manifest) (\<lambda>content.
      let w1 = write_file manifest (strip_initialization content) w in
      bindE (parse_file T w1 manifest) (\<lambda>tree.
      bindE (py_nth (children tree) 1) (\<lambda>period.
      bindE (py_nth (children period) 0) (\<lambda>root.
      bindE (case find_representation (children root) 0 None of
               None \<Rightarrow> Inl (RuntimeError (''Could not find Representation in '' @ manifest))
             | Some i \<Rightarrow> Inr i) (\<lambda>i.
      bindE (rank rates rate) (\<lambda>pl.
      let rep = set_attrib ''id'' (rep_id pl) (children root ! i) in
      bindE (int_attrib N rep ''width'') (\<lambda>wd.
      bindE (int_attrib N rep ''height'') (\<lambda>ht.
      let info1 = AList.update rate \<lparr>width = wd, height = ht\<rparr> info;
          root1 = set_child root i rep
      in
      (case base of
         None \<Rightarrow>
           let segment_template =
                 set_attrib ''media'' ''$RepresentationID$/$Number$.m4s''
                   (set_attrib ''initialization'' ''$RepresentationID$/init.mp4''
                      (children root1 ! 0));
               root2 = set_child root1 0 segment_template
           in Inr (Some (set_child tree 1 (set_child period 0 root2)), info1, w1)
       | Some b \<Rightarrow>
           bindE (append_representation b rep) (\<lambda>b1.
           Inr (Some b1, info1, w1))))))))))))\<close>

fun merge_fragments ::
  "'f tools \<Rightarrow> 'f py_num \<Rightarrow> string \<Rightarrow> int list \<Rightarrow> int list
     \<Rightarrow> xml option \<times> (int \<times> dims) list \<times> world
     \<Rightarrow> error + (xml option \<times> (int \<times> dims) list \<times> world)" where
  "merge_fragments T N tracks_dir rates [] st = Inr st"
| "merge_fragments T N tracks_dir rates (rate # rest) st =
     bindE (merge_fragment T N tracks_dir rates rate st)
       (merge_fragments T N tracks_dir rates rest)"

text \<open>
  \<open>open(out_manifest, "w")\<close> empties the file before \<open>tostring(base)\<close> is evaluated;
  \<open>tostring(None)\<close>, for an empty list of rates, raises AttributeError.
\<close>

definition build_common_manifest ::
  "'f tools \<Rightarrow> 'f py_num \<Rightarrow> string \<Rightarrow> int list \<Rightarrow> world
     \<Rightarrow> error + ((int \<times> dims) list \<times> world)" where
  "build_common_manifest T N video_name rates w =
     (let tracks_dir = ''videos/'' @ video_name @ ''/tracks'';
          out_manifest = tracks_dir @ ''/manifest.mpd''
      in
      bindE (merge_fragments T N tracks_dir rates rates (None, [], w)) (\<lambda>(base, info, w1).
      bindE (rm T out_manifest w1) (\<lambda>w2.
      case base of
        None \<Rightarrow> Inl AttributeError
      | Some b \<Rightarrow> Inr (info, write_file out_manifest (xml_tostring T b) w2))))"

text \<open>
  What a reader of the merged manifest sees: the children of \<open>base[1][0]\<close> whose tag
  contains \<open>Representation\<close>, in document order, and the element \<open>base[1][0][0]\<close> that
  holds the shared segment template.
\<close>

definition is_representation :: "xml \<Rightarrow> bool" where
  "is_representation c = contains ''Representation'' (tag c)"

definition representations :: "xml \<Rightarrow> xml list" where
  "representations base =
     (case py_nth (children base) 1 of
        Inl e \<Rightarrow> []
      | Inr period \<Rightarrow>
          (case py_nth (children period) 0 of
             Inl e \<Rightarrow> []
           | Inr aset \<Rightarrow> filter is_representation (children aset)))"

definition segment_template_of :: "xml \<Rightarrow> error + xml" where
  "segment_template_of base =
     bindE (py_nth (children base) 1) (\<lambda>period.
     bindE (py_nth (children period) 0) (\<lambda>aset.
     py_nth (children aset) 0))"



text \<open>The \<open>id\<close> attribute of an element, and the rank of a rate as a number.\<close>

definition id_of :: "xml \<Rightarrow> string option" where
  "id_of e = map_of (attrib e) ''id''"

definition rank_of :: "int list \<Rightarrow> int \<Rightarrow> nat" where
  "rank_of rates rate = (case rank rates rate of Inl e \<Rightarrow> 0 | Inr k \<Rightarrow> k)"

text \<open>
  A manifest fragment is well formed when \<open>tree[1][0]\<close> exists and has exactly one
  child whose tag contains \<open>Representation\<close>.
\<close>

definition one_representation :: "xml \<Rightarrow> bool" where
  "one_representation tree = (length (representations tree) = 1)"



section \<open>\<open>convert_to_yuv\<close> and \<open>compute_vmaf\<close>\<close>

definition convert_to_yuv ::
  "'f tools \<Rightarrow> string \<Rightarrow> string \<Rightarrow> int \<Rightarrow> int \<Rightarrow> string \<Rightarrow> world \<Rightarrow> error + (string \<times> world)" where
  \<open>convert_to_yuv T video_name mp4_path wd ht tg w =
     (let w1 = ensure_dir (''videos/'' @ video_name @ ''/yuv'') w;
          out_yuv = ''videos/'' @ video_name @ ''/yuv/'' @ tg @ ''.yuv''
      in
      bindE (run_cmd T
               (''ffmpeg -y -i "'' @ mp4_path @ ''" -pix_fmt yuv420p -vsync 0 -vf scale='' @
                str_int wd @ '':'' @ str_int ht @ '' "'' @ out_yuv @ ''"'') w1) (\<lambda>(out, w2).
      Inr (out_yuv, w2)))\<close>

text \<open>
  The start \<open>ss\<close> and the duration \<open>t\<close> of the window of segment \<open>seg\<close>, from the
  per-segment dictionary \<open>si = seg_info[rate]\<close> of one representation (lines 267 to 271).
\<close>

definition seg_window :: "'f py_num \<Rightarrow> 'f seg_info \<Rightarrow> int \<Rightarrow> int \<Rightarrow> error + ('f \<times> 'f)" where
  "seg_window N si segments seg =
     bindE (lookup_int si seg) (\<lambda>cur.
     let ss = start_time cur in
     if seg < segments then
       bindE (lookup_int si (seg + 1)) (\<lambda>nxt.
       Inr (ss, float_sub N (start_time nxt) ss))
     else
       bindE (lookup_int si seg) (\<lambda>cur2.
       bindE (lookup_int si (seg - 1)) (\<lambda>prev.
       Inr (ss, float_sub N (start_time cur2) (start_time prev)))))"

definition cut_cmd :: "'f py_num \<Rightarrow> int \<Rightarrow> int \<Rightarrow> string \<Rightarrow> 'f \<Rightarrow> 'f \<Rightarrow> string \<Rightarrow> string" where
  \<open>cut_cmd N wd ht yuv ss t out =
     ''ffmpeg -y -s:v '' @ str_int wd @ ''x'' @ str_int ht @ '' -r 10 -i "'' @ yuv @
     ''" -ss '' @ str_of_float N ss @ '' -t '' @ str_of_float N t @
     '' -pix_fmt yuv420p '' @ out\<close>

definition vmaf_bin :: string where
  "vmaf_bin = ''./deps/vmaf/libvmaf/build/tools/vmafossexec''"

definition vmaf_model :: string where
  "vmaf_model = ''./deps/vmaf/model/vmaf_v0.6.1.json''"

definition vmaf_cmd :: "int \<Rightarrow> int \<Rightarrow> string" where
  \<open>vmaf_cmd wd ht =
     vmaf_bin @ '' yuv420p '' @ str_int wd @ '' '' @ str_int ht @
     '' cut2.yuv cut1.yuv "'' @ vmaf_model @ ''" '' @
     ''--log vmaf_out.json --log-fmt json''\<close>

text \<open>\<open>seg_info[rate][seg]["vmaf"] = score\<close>\<close>

definition set_vmaf ::
  "(int \<times> 'f seg_info) list \<Rightarrow> int \<Rightarrow> int \<Rightarrow> 'f \<Rightarrow> error + (int \<times> 'f seg_info) list" where
  "set_vmaf seg_info rate seg score =
     bindE (lookup_int seg_info rate) (\<lambda>si.
     bindE (lookup_int si seg) (\<lambda>e.
     Inr (AList.update rate (AList.update seg (e\<lparr>vmaf := Some score\<rparr>) si) seg_info)))"

text \<open>The body of the loop over the segments of one representation.\<close>

definition score_segment ::
  "'f tools \<Rightarrow> 'f py_num \<Rightarrow> int \<Rightarrow> int \<Rightarrow> string \<Rightarrow> string \<Rightarrow> int \<Rightarrow> int \<Rightarrow> int
     \<Rightarrow> (int \<times> 'f seg_info) list \<times> world \<Rightarrow> error + ((int \<times> 'f seg_info) list \<times> world)" where
  "score_segment T N wd ht cur_yuv ref_yuv rate segments seg st =
     (case st of (seg_info, w) \<Rightarrow>
      bindE (lookup_int seg_info rate) (\<lambda>si.
      bindE (seg_window N si segments seg) (\<lambda>(ss, t).
      bindE (run_cmd T (cut_cmd N wd ht cur_yuv ss t ''cut1.yuv'') w) (\<lambda>(o1, w1).
      bindE (run_cmd T (cut_cmd N wd ht ref_yuv ss t ''cut2.yuv'') w1) (\<lambda>(o2, w2).
      bindE (run_cmd T (vmaf_cmd wd ht) w2) (\<lambda>(o3, w3).
      bindE (read_file w3 ''vmaf_out.json'') (\<lambda>txt.
      bindE (case json_loads T txt of None \<Rightarrow> Inl ValueError | Some v \<Rightarrow> Inr v) (\<lambda>v.
      bindE (extract_vmaf_score N v) (\<lambda>score.
      bindE (set_vmaf seg_info rate seg score) (\<lambda>seg_info1.
      bindE (run_cmd T ''rm -f cut1.yuv cut2.yuv vmaf_out.json || true'' w3) (\<lambda>(o4, w4).
      Inr (seg_info1, w4))))))))))))"

fun score_segments ::
  "'f tools \<Rightarrow> 'f py_num \<Rightarrow> int \<Rightarrow> int \<Rightarrow> string \<Rightarrow> string \<Rightarrow> int \<Rightarrow> int \<Rightarrow> int list
     \<Rightarrow> (int \<times> 'f seg_info) list \<times> world \<Rightarrow> error + ((int \<times> 'f seg_info) list \<times> world)" where
  "score_segments T N wd ht cur_yuv ref_yuv rate segments [] st = Inr st"
| "score_segments T N wd ht cur_yuv ref_yuv rate segments (seg # segs) st =
     bindE (score_segment T N wd ht cur_yuv ref_yuv rate segments seg st)
       (score_segments T N wd ht cur_yuv ref_yuv rate segments segs)"

text \<open>The body of the loop \<open>for rate in rates\<close>.\<close>

definition score_rep ::
  "'f tools \<Rightarrow> 'f py_num \<Rightarrow> string \<Rightarrow> (int \<times> string) list \<Rightarrow> int \<Rightarrow> int \<Rightarrow> string \<Rightarrow> int \<Rightarrow> int
     \<Rightarrow> (int \<times> 'f seg_info) list \<times> world \<Rightarrow> error + ((int \<times> 'f seg_info) list \<times> world)" where
  "score_rep T N video_name reps wd ht ref_yuv biggest rate st =
     (case st of (seg_info, w) \<Rightarrow>
      bindE (if rate = biggest then Inr (ref_yuv, w)
             else bindE (lookup_int reps rate) (\<lambda>mp4.
                  convert_to_yuv T video_name mp4 wd ht (''video_'' @ str_int rate) w))
        (\<lambda>(cur_yuv, w1).
      bindE (lookup_int seg_info rate) (\<lambda>si.
      bindE (py_max (map fst si)) (\<lambda>segments.
      score_segments T N wd ht cur_yuv ref_yuv rate segments [1..segments] (seg_info, w1)))))"

fun score_reps ::
  "'f tools \<Rightarrow> 'f py_num \<Rightarrow> string \<Rightarrow> (int \<times> string) list \<Rightarrow> int \<Rightarrow> int \<Rightarrow> string \<Rightarrow> int \<Rightarrow> int list
     \<Rightarrow> (int \<times> 'f seg_info) list \<times> world \<Rightarrow> error + ((int \<times> 'f seg_info) list \<times> world)" where
  "score_reps T N video_name reps wd ht ref_yuv biggest [] st = Inr st"
| "score_reps T N video_name reps wd ht ref_yuv biggest (rate # rest) st =
     bindE (score_rep T N video_name reps wd ht ref_yuv biggest rate st)
       (score_reps T N video_name reps wd ht ref_yuv biggest rest)"

text \<open>
  \<open>compute_vmaf\<close> returns nothing; it changes \<open>seg_info\<close> in place, so the model returns
  the dictionary with the world.
\<close>

definition compute_vmaf ::
  "'f tools \<Rightarrow> 'f py_num \<Rightarrow> string \<Rightarrow> int list \<Rightarrow> (int \<times> string) list
     \<Rightarrow> (int \<times> 'f seg_info) list \<Rightarrow> (int \<times> dims) list \<Rightarrow> world
     \<Rightarrow> error + ((int \<times> 'f seg_info) list \<times> world)" where
  "compute_vmaf T N video_name rates reps seg_info info w =
     (let out_path = ''videos/'' @ video_name @ ''/vmaf.json'' in
      if isfile w out_path then Inr (seg_info, w)
      else if \<not> isfile w vmaf_bin then
        Inl (RuntimeError (''VMAF binary not found at '' @ vmaf_bin))
      else if \<not> isfile w vmaf_model then
        Inl (RuntimeError (''VMAF model not found at '' @ vmaf_model @
               ''. List models with: ls -la ./deps/vmaf/model''))
      else
        bindE (py_max rates) (\<lambda>biggest.
        bindE (lookup_int info biggest) (\<lambda>d.
        let wd = width d; ht = height d in
        bindE (lookup_int reps biggest) (\<lambda>ref_mp4.
        bindE (convert_to_yuv T video_name ref_mp4 wd ht (''video_'' @ str_int biggest) w)
          (\<lambda>(ref_yuv, w1).
        bindE (score_reps T N video_name reps wd ht ref_yuv biggest rates (seg_info, w1))
          (\<lambda>(seg_info1, w2).
        bindE (rm T (''videos/'' @ video_name @ ''/yuv'') w2) (\<lambda>w3.
        Inr (seg_info1, write_file out_path (json_dumps T seg_info1) w3))))))))"


section \<open>\<open>run\<close>\<close>

record args =
  arg_input :: string
  arg_video :: string
  arg_segment :: int
  arg_fps :: int
  arg_rates :: "int list"
  arg_vmaf :: bool

text \<open>The loop \<open>for r in args.rates: seg_info_all[r] = segment_rep(...)\<close>\<close>

fun segment_all ::
  "'f tools \<Rightarrow> 'f py_num \<Rightarrow> string \<Rightarrow> int \<Rightarrow> (int \<times> string) list \<Rightarrow> int list
     \<Rightarrow> (int \<times> 'f seg_info) list \<Rightarrow> world \<Rightarrow> error + ((int \<times> 'f seg_info) list \<times> world)" where
  "segment_all T N video_name seg_s reps [] seg_info_all w = Inr (seg_info_all, w)"
| "segment_all T N video_name seg_s reps (r # rs) seg_info_all w =
     bindE (lookup_int reps r) (\<lambda>rep_mp4.
     bindE (segment_rep T N video_name rep_mp4 r seg_s w) (\<lambda>(si, w1).
     segment_all T N video_name seg_s reps rs (AList.update r si seg_info_all) w1))"

definition run :: "'f tools \<Rightarrow> 'f py_num \<Rightarrow> args \<Rightarrow> world \<Rightarrow> error + world" where
  "run T N a w =
     (let video_name = arg_video a;
          w0 = ensure_dir (''videos/'' @ video_name @ ''/tracks'')
                 (ensure_dir (''videos/'' @ video_name @ ''/tmp'') (ensure_dir ''videos'' w))
      in
      bindE (transcode_h264_reps T (arg_input a) (''videos/'' @ video_name @ ''/tmp'')
               (arg_rates a) (arg_fps a) (arg_segment a) w0) (\<lambda>(reps, w1).
      bindE (segment_all T N video_name (arg_segment a) reps (arg_rates a) [] w1)
        (\<lambda>(seg_info_all, w2).
      bindE (build_common_manifest T N video_name (arg_rates a) w2) (\<lambda>(info, w3).
      if arg_vmaf a then
        bindE (compute_vmaf T N video_name (arg_rates a) reps seg_info_all info w3)
          (\<lambda>(seg_info1, w4). Inr w4)
      else Inr w3))))"

section \<open>An instance for evaluating examples\<close>

text \<open>
  Floats as the real numbers they denote, with exact subtraction and division, and
  \<open>int\<close> on plain decimal literals. This instance only serves to run the definitions on
  concrete inputs; the general theorems hold for every instance.
\<close>

fun dec_digits :: "string \<Rightarrow> nat \<Rightarrow> nat option" where
  "dec_digits [] acc = Some acc"
| "dec_digits (c # cs) acc =
     (case map_of (zip ''0123456789'' [0, 1, 2, 3, 4, 5, 6, 7, 8, 9]) c of
        None \<Rightarrow> None
      | Some d \<Rightarrow> dec_digits cs (10 * acc + d))"

definition dec_int :: "string \<Rightarrow> int option" where
  "dec_int s =
     (case s of
        [] \<Rightarrow> None
      | c # cs \<Rightarrow>
          if c = CHR ''-'' then
            (if cs = [] then None else map_option (\<lambda>n. - int n) (dec_digits cs 0))
          else map_option int (dec_digits s 0))"

definition exact_num :: "real py_num" where
  "exact_num =
     \<lparr> float_of_int = (\<lambda>n. Some (real_of_int n)),
       float_of_str = (\<lambda>s. map_option real_of_int (dec_int s)),
       int_of_str = dec_int,
       true_div = (\<lambda>a b. Some (real_of_int a / real_of_int b)),
       float_sub = (\<lambda>x y. x - y),
       str_of_float = (\<lambda>x. str_int \<lfloor>x\<rfloor>) \<rparr>"



text \<open>
  An outside world for the examples: a shell whose commands leave the file system as it
  is, report two chunks and print a segment index box for each chunk; a parser that
  returns a fragment with one representation, recording the content of the file as its
  bandwidth; a serialiser that lists the identifiers of the representations in document
  order; and a file system where the pipeline has already run for the video \<open>v\<close>.
\<close>

definition demo_fragment :: "string \<Rightarrow> xml" where
  "demo_fragment c =
     Elem ''MPD'' []
       [Elem ''ProgramInformation'' [] [],
        Elem ''Period'' []
          [Elem ''AdaptationSet'' []
             [Elem ''SegmentTemplate'' [(''media'', ''$Number$.m4s'')] [],
              Elem ''Representation''
                [(''id'', ''1''), (''bandwidth'', c), (''width'', ''640''), (''height'', ''360'')]
                []]]]"

definition demo_sidx :: "string \<Rightarrow> string" where
  \<open>demo_sidx e =
     ''<SegmentIndexBox Size="44" Type="sidx" reference_ID="1" timescale="12288" '' @
     ''earliest_presentation_time="'' @ e @ ''" first_offset="0">''\<close>

definition demo_out :: "string \<Rightarrow> string" where
  "demo_out cmd =
     (if prefix ''ls '' cmd then ''2''
      else if prefix ''MP4Box -std'' cmd then
        (if contains ''/1.m4s'' cmd then demo_sidx ''0'' else demo_sidx ''61440'')
      else [])"

definition demo_tools :: "real tools" where
  "demo_tools =
     \<lparr> sh = (\<lambda>cmd fs. Some (demo_out cmd, fs)),
       abspath = (\<lambda>p. ''/work/'' @ p),
       xml_parse = (\<lambda>c. Some (demo_fragment c)),
       xml_tostring = (\<lambda>b. py_join '','' (map (\<lambda>e. case id_of e of None \<Rightarrow> [] | Some i \<Rightarrow> i)
                                          (representations b))),
       json_loads = (\<lambda>c. Some (JDict [(''aggregate'', JDict [(''VMAF_score'', JFloat 90)])])),
       json_dumps = (\<lambda>d. ''{}'') \<rparr>"

definition demo_world :: world where
  "demo_world =
     \<lparr> files = map_of
         [(''videos/v/tmp/rep_600.mp4'', ''mp4''),
          (''videos/v/tmp/rep_300.mp4'', ''mp4''),
          (''videos/v/tracks/video_600/intermediate_dash.mpd'', ''600000''),
          (''videos/v/tracks/video_600/init.mp4'', ''init''),
          (''videos/v/tracks/video_600/1.m4s'', ''chunk''),
          (''videos/v/tracks/video_600/2.m4s'', ''chunk''),
          (''videos/v/tracks/video_300/intermediate_dash.mpd'', ''300000''),
          (''videos/v/tracks/video_300/init.mp4'', ''init''),
          (''videos/v/tracks/video_300/1.m4s'', ''chunk''),
          (''videos/v/tracks/video_300/2.m4s'', ''chunk''),
          (''videos/v/tracks/manifest.mpd'', ''video0,video1''),
          (''videos/v/vmaf.json'', ''{}'')],
       cmds = [] \<rparr>"


definition demo_scoring_world :: world where
  "demo_scoring_world =
     \<lparr> files = map_of
         [(''videos/v/tmp/rep_600.mp4'', ''mp4''),
          (''videos/v/tmp/rep_300.mp4'', ''mp4''),
          (vmaf_bin, ''bin''),
          (vmaf_model, ''model''),
          (''vmaf_out.json'', ''{}'')],
       cmds = [] \<rparr>"

text \<open>
  The arguments of a run on the video \<open>v\<close>, and the commands that \<open>segment_rep\<close> runs
  for one rate in the example world, in order.
\<close>

definition demo_args :: args where
  "demo_args =
     \<lparr> arg_input = ''in.mp4'', arg_video = ''v'', arg_segment = 5, arg_fps = 24,
       arg_rates = [300, 600], arg_vmaf = True \<rparr>"

definition demo_segment_cmds :: "string \<Rightarrow> int \<Rightarrow> string list" where
  "demo_segment_cmds rep_mp4 rate =
     [''rm -rf '' @ [CHR 0x22] @ ''videos/v/tracks/video_'' @ str_int rate @ [CHR 0x22] @ '' || true'',
      ''rm -rf '' @ [CHR 0x22] @ ''videos/v/tmp/mp4box_'' @ str_int rate @ [CHR 0x22] @ '' || true'',
      dash_cmd (''videos/v/tmp/mp4box_'' @ str_int rate) 5000 (''/work/'' @ rep_mp4),
      ''mv '' @ [CHR 0x22] @ ''videos/v/tmp/mp4box_'' @ str_int rate @ [CHR 0x22] @ ''/*_dash.mpd ''
        @ [CHR 0x22] @ ''videos/v/tracks/video_'' @ str_int rate @ ''/intermediate_dash.mpd'' @ [CHR 0x22],
      ''mv '' @ [CHR 0x22] @ ''videos/v/tmp/mp4box_'' @ str_int rate @ ''/init.mp4'' @ [CHR 0x22] @ '' ''
        @ [CHR 0x22] @ ''videos/v/tracks/video_'' @ str_int rate @ ''/init.mp4'' @ [CHR 0x22],
      ''mv '' @ [CHR 0x22] @ ''videos/v/tmp/mp4box_'' @ str_int rate @ [CHR 0x22] @ ''/*.m4s ''
        @ [CHR 0x22] @ ''videos/v/tracks/video_'' @ str_int rate @ ''/'' @ [CHR 0x22],
      ''rm -rf '' @ [CHR 0x22] @ ''videos/v/tmp/mp4box_'' @ str_int rate @ [CHR 0x22] @ '' || true'',
      count_cmd (''videos/v/tracks/video_'' @ str_int rate),
      inspect_cmd (''videos/v/tracks/video_'' @ str_int rate) 1,
      inspect_cmd (''videos/v/tracks/video_'' @ str_int rate) 2]"

section \<open>Properties of \<open>extract_vmaf_score\<close>\<close>

lemma score_values_number: "is_int_or_float v \<Longrightarrow> score_values v = []"
  by (cases v) auto

lemma first_score_append:
  "first_score N (xs @ ys) = (if xs = [] then first_score N ys else first_score N xs)"
  by (cases xs) (auto simp: first_score_def)

lemma walk_first_score:
  "walk N v = first_score N (score_values v)"
  "walk_items N d = first_score N (score_values_items d)"
  "walk_elems N xs = first_score N (score_values_elems xs)"
proof (induction N v and N d and N xs rule: walk_walk_items_walk_elems.induct)
  case (9 N k val d)
  then show ?case
    by (auto simp: first_score_append score_values_number first_score_def
             split: sum.splits option.splits list.splits)
next
  case (11 N it its)
  then show ?case
    by (auto simp: first_score_append first_score_def
             split: sum.splits option.splits list.splits)
qed (simp_all add: first_score_def)

lemma score_key_examples:
  "score_key ''VMAF''" "score_key ''vmaf''" "score_key ''VMAF_score''" "score_key ''Vmaf_Score''"
  "\<not> score_key ''foo''" "\<not> score_key ''bar''" "\<not> score_key ''metrics''" "\<not> score_key ''frames''"
  by (simp_all add: score_key_def lower_def lower_char_def)

text \<open>
  Claim C1. \<open>extract_vmaf_score\<close> tries the known report shapes in a fixed order and
  returns the matched scalar. For the report \<open>{"aggregate": {"VMAF_score": x}}\<close> it returns
  \<open>x\<close> (so \<open>87.5\<close> for \<open>87.5\<close>), and the spelling \<open>VMAF\<close> is read when \<open>VMAF_score\<close> is
  absent; for \<open>{"pooled_metrics": {"vmaf": {"mean": m, "harmonic_mean": h}}}\<close> it returns
  \<open>m\<close>, the mean being preferred to the harmonic mean, then the minimum, then the
  maximum, whatever the order of the keys; a \<open>metrics\<close> object gives its mean; for
  \<open>{"foo": {"bar": [{"VMAF": y}]}}\<close> the generic search returns \<open>y\<close>. A report that
  matches several shapes is read by the first of them. The generic search \<open>walk\<close>
  returns the first value of the depth-first list \<open>score_values\<close>, and that is the
  result of \<open>extract_vmaf_score\<close> when no known shape matches.
\<close>

theorem extract_vmaf_score_schemas:
  "extract_vmaf_score N (JDict [(''aggregate'', JDict [(''VMAF_score'', JFloat x)])]) = Inr x
   \<and> extract_vmaf_score N (JDict [(''aggregate'', JDict [(''VMAF'', JFloat x)])]) = Inr x
   \<and> extract_vmaf_score N
        (JDict [(''pooled_metrics'',
                 JDict [(''vmaf'', JDict [(''mean'', JFloat m), (''harmonic_mean'', JFloat h)])])])
       = Inr m
   \<and> extract_vmaf_score N
        (JDict [(''pooled_metrics'',
                 JDict [(''vmaf'', JDict [(''max'', JFloat b), (''min'', JFloat a),
                                          (''harmonic_mean'', JFloat h), (''mean'', JFloat m)])])])
       = Inr m
   \<and> extract_vmaf_score N
        (JDict [(''pooled_metrics'',
                 JDict [(''vmaf'', JDict [(''max'', JFloat b), (''min'', JFloat a),
                                          (''harmonic_mean'', JFloat h)])])])
       = Inr h
   \<and> extract_vmaf_score N
        (JDict [(''pooled_metrics'',
                 JDict [(''vmaf'', JDict [(''max'', JFloat b), (''min'', JFloat a)])])])
       = Inr a
   \<and> extract_vmaf_score N
        (JDict [(''pooled_metrics'', JDict [(''vmaf'', JDict [(''max'', JFloat b)])])])
       = Inr b
   \<and> extract_vmaf_score N (JDict [(''metrics'', JDict [(''vmaf'', JDict [(''mean'', JFloat m)])])])
       = Inr m
   \<and> extract_vmaf_score N
        (JDict [(''foo'', JDict [(''bar'', JList [JDict [(''VMAF'', JFloat y)]])])])
       = Inr y
   \<and> extract_vmaf_score N
        (JDict [(''vmaf'', JFloat y),
                (''metrics'', JDict [(''vmaf'', JDict [(''mean'', JFloat m)])]),
                (''pooled_metrics'', JDict [(''vmaf'', JDict [(''mean'', JFloat h)])]),
                (''aggregate'', JDict [(''VMAF'', JFloat b), (''VMAF_score'', JFloat x)])])
       = Inr x
   \<and> extract_vmaf_score N
        (JDict [(''vmaf'', JFloat y),
                (''metrics'', JDict [(''vmaf'', JDict [(''mean'', JFloat m)])]),
                (''pooled_metrics'', JDict [(''vmaf'', JDict [(''mean'', JFloat h)])])])
       = Inr h
   \<and> extract_vmaf_score N
        (JDict [(''vmaf'', JFloat y),
                (''metrics'', JDict [(''vmaf'', JDict [(''mean'', JFloat m)])])])
       = Inr m
   \<and> walk N v = first_score N (score_values v)
   \<and> (schema_aggregate N v = None \<and> schema_pooled N v = None \<and> schema_metrics N v = None
        \<and> score_values v = c # cs \<and> py_float N c = Inr r
      \<longrightarrow> extract_vmaf_score N v = Inr r)"
  by (simp add: extract_vmaf_score_def schema_aggregate_def schema_pooled_def
        schema_metrics_def score_key_examples walk_first_score first_score_def)

theorem extract_vmaf_score_schemas_witness:
  "schema_aggregate exact_num (JDict [(''foo'', JDict [(''bar'', JList [JDict [(''VMAF'', JFloat 77)]])])]) = None
   \<and> schema_pooled exact_num (JDict [(''foo'', JDict [(''bar'', JList [JDict [(''VMAF'', JFloat 77)]])])]) = None
   \<and> schema_metrics exact_num (JDict [(''foo'', JDict [(''bar'', JList [JDict [(''VMAF'', JFloat 77)]])])]) = None
   \<and> score_values (JDict [(''foo'', JDict [(''bar'', JList [JDict [(''VMAF'', JFloat 77)]])])])
        = [JFloat (77::real)]
   \<and> py_float exact_num (JFloat 77) = Inr 77
   \<and> extract_vmaf_score exact_num
        (JDict [(''foo'', JDict [(''bar'', JList [JDict [(''VMAF'', JFloat 77)]])])]) = Inr 77"
  using extract_vmaf_score_schemas
    [where N = exact_num
       and v = "JDict [(''foo'', JDict [(''bar'', JList [JDict [(''VMAF'', JFloat 77)]])])]"
       and c = "JFloat 77" and cs = "[]" and r = 77]
  by (simp add: schema_aggregate_def schema_pooled_def schema_metrics_def score_key_examples)

text \<open>
  Claim C5. When no known shape matches the report and no numeric value stands under a
  key spelled \<open>vmaf_score\<close> or \<open>vmaf\<close> in any case, \<open>extract_vmaf_score\<close> fails with the
  KeyError whose message lists the top-level keys of the report when it is a
  dictionary, and names the type of the report otherwise.
\<close>

theorem extract_vmaf_score_not_found:
  assumes "schema_aggregate N v = None"
    and "schema_pooled N v = None"
    and "schema_metrics N v = None"
    and "score_values v = []"
  shows "extract_vmaf_score N v =
           Inl (KeyError (NoVmafScore
             (case v of JDict d \<Rightarrow> TopKeys (map fst d) | _ \<Rightarrow> TopType (py_type_of v))))"
  using assms
  by (simp add: extract_vmaf_score_def walk_first_score first_score_def top_level_of_def)

theorem extract_vmaf_score_not_found_witness:
  "extract_vmaf_score exact_num (JDict [(''frames'', JList [JDict [(''psnr'', JFloat 30)]]), (''version'', JStr ''2.3.1'')])
     = Inl (KeyError (NoVmafScore (TopKeys [''frames'', ''version''])))
   \<and> extract_vmaf_score exact_num (JList [JInt 3]) = Inl (KeyError (NoVmafScore (TopType T_list)))"
  using extract_vmaf_score_not_found
    [where N = exact_num
       and v = "JDict [(''frames'', JList [JDict [(''psnr'', JFloat 30)]]), (''version'', JStr ''2.3.1'')]"]
    extract_vmaf_score_not_found [where N = exact_num and v = "JList [JInt 3]"]
  by (simp add: schema_aggregate_def schema_pooled_def schema_metrics_def score_key_def lower_def lower_char_def)


section \<open>Evaluation on concrete inputs\<close>

text \<open>
  With the weak congruence rule the simplifier evaluates a sequence of steps in order:
  it rewrites the first step to a result before it enters the rest.
\<close>

lemma bindE_Inr [simp]: "bindE (Inr x) f = f x"
  by (simp add: bindE_def)

lemma bindE_Inl [simp]: "bindE (Inl e) f = Inl e"
  by (simp add: bindE_def)

lemma bindE_weak_cong: "m = m' \<Longrightarrow> bindE m f = bindE m' f"
  by simp

lemmas eval_defs =
  py_nth_def py_int_def py_truediv_def py_max_def lookup_int_def path_join_def
  isfile_def read_file_def write_file_def run_cmd_def ensure_dir_def rm_def
  str_int_def digits.simps split_from.simps py_split_def get_attr_def
  set_attrib_def set_child_def append_child_def int_attrib_def strip_initialization_def
  parse_file_def rank_def rep_id_def append_representation_def is_representation_def
  representations_def segment_template_of_def id_of_def rank_of_def one_representation_def
  dec_int_def exact_num_def demo_fragment_def demo_sidx_def demo_out_def demo_tools_def
  demo_world_def Let_def


lemma demo_tools_fields:
  "sh demo_tools cmd fs = Some (demo_out cmd, fs)"
  "abspath demo_tools p = ''/work/'' @ p"
  "xml_parse demo_tools c = Some (demo_fragment c)"
  "xml_tostring demo_tools b =
     py_join '','' (map (\<lambda>e. case id_of e of None \<Rightarrow> [] | Some i \<Rightarrow> i) (representations b))"
  by (simp_all add: demo_tools_def)

lemma exact_num_fields:
  "int_of_str exact_num = dec_int"
  "float_of_int exact_num n = Some (real_of_int n)"
  "true_div exact_num a b = Some (real_of_int a / real_of_int b)"
  "float_sub exact_num x y = x - y"
  by (simp_all add: exact_num_def)

lemma demo_segment_rep_300:
  "segment_rep demo_tools exact_num ''v'' ''videos/v/tmp/rep_300.mp4'' 300 5 w
     = Inr ([(1, \<lparr>start_time = 0, vmaf = None\<rparr>), (2, \<lparr>start_time = 5, vmaf = None\<rparr>)],
            \<lparr>files = files w, cmds = cmds w @ demo_segment_cmds ''videos/v/tmp/rep_300.mp4'' 300\<rparr>)"
  by (simp add: segment_rep_def chunk_start_def inspect_cmd_def count_cmd_def dash_cmd_def
          demo_segment_cmds_def upto_rec1 eval_defs cong: bindE_weak_cong)

lemma demo_segment_rep_600:
  "segment_rep demo_tools exact_num ''v'' ''videos/v/tmp/rep_600.mp4'' 600 5 w
     = Inr ([(1, \<lparr>start_time = 0, vmaf = None\<rparr>), (2, \<lparr>start_time = 5, vmaf = None\<rparr>)],
            \<lparr>files = files w, cmds = cmds w @ demo_segment_cmds ''videos/v/tmp/rep_600.mp4'' 600\<rparr>)"
  by (simp add: segment_rep_def chunk_start_def inspect_cmd_def count_cmd_def dash_cmd_def
          demo_segment_cmds_def upto_rec1 eval_defs cong: bindE_weak_cong)

lemma demo_transcode:
  "transcode_h264_reps demo_tools ''in.mp4'' ''videos/v/tmp'' [300, 600] 24 5 demo_world
     = Inr ([(300, ''videos/v/tmp/rep_300.mp4''), (600, ''videos/v/tmp/rep_600.mp4'')], demo_world)"
  by (simp add: transcode_h264_reps_def rep_path_def eval_defs cong: bindE_weak_cong)

lemma demo_run:
  "\<exists>fs. run demo_tools exact_num demo_args demo_world =
     Inr \<lparr> files = fs,
           cmds = demo_segment_cmds ''videos/v/tmp/rep_300.mp4'' 300
                @ demo_segment_cmds ''videos/v/tmp/rep_600.mp4'' 600
                @ [''rm -rf '' @ [CHR 0x22] @ ''videos/v/tracks/manifest.mpd'' @ [CHR 0x22]
                   @ '' || true''] \<rparr>"
proof -
  have f: "files demo_world ''videos/v/tracks/video_300/intermediate_dash.mpd'' = Some ''300000''"
    "files demo_world ''videos/v/tracks/video_600/intermediate_dash.mpd'' = Some ''600000''"
    "files demo_world ''videos/v/vmaf.json'' = Some ''{}''"
    by (simp_all add: demo_world_def)
  have c: "cmds demo_world = []" by (simp add: demo_world_def)
  show ?thesis
    by (simp add: run_def demo_args_def demo_transcode demo_segment_rep_300
        demo_segment_rep_600 build_common_manifest_def merge_fragment_def compute_vmaf_def
        f c
        py_nth_def py_int_def lookup_int_def isfile_def read_file_def write_file_def
        run_cmd_def ensure_dir_def rm_def str_int_def digits.simps split_from.simps
        set_attrib_def set_child_def append_child_def int_attrib_def strip_initialization_def
        parse_file_def rank_def rep_id_def append_representation_def is_representation_def
        representations_def id_of_def dec_int_def exact_num_fields demo_fragment_def
        demo_tools_fields demo_out_def Let_def
        cong: bindE_weak_cong)
qed

section \<open>Ranks and identifiers\<close>













section \<open>The merged manifest\<close>

lemma bindE_Inr_iff: "(bindE m f = Inr y) = (\<exists>x. m = Inr x \<and> f x = Inr y)"
  by (cases m) (simp_all add: bindE_def)








lemma tag_set_attrib [simp]: "tag (set_attrib k v e) = tag e"
  by (simp add: set_attrib_def)

lemma attrib_set_attrib: "map_of (attrib (set_attrib k v e)) = (map_of (attrib e))(k \<mapsto> v)"
  by (simp add: set_attrib_def update_conv')

lemma is_representation_set_attrib [simp]:
  "is_representation (set_attrib k v e) = is_representation e"
  by (simp add: is_representation_def)

lemma id_of_set_id [simp]: "id_of (set_attrib ''id'' v e) = Some v"
  by (simp add: id_of_def attrib_set_attrib)


lemma children_set_child [simp]: "children (set_child e i c) = (children e)[i := c]"
  by (simp add: set_child_def)


















section \<open>The quality windows of \<open>compute_vmaf\<close>\<close>

lemma run_cmd_Inr:
  "run_cmd T cmd w = Inr (out, w') \<Longrightarrow> cmds w' = cmds w @ [cmd]"
  by (auto simp: run_cmd_def split: option.splits)






lemma single_segment_keys:
  assumes "map fst si = [1::int]"
  shows "\<exists>e. map_of si 1 = Some e" and "map_of si 0 = None" and "py_max (map fst si) = Inr 1"
proof -
  from assms obtain e where "si = [(1, e)]" by (cases si) auto
  then show "\<exists>e. map_of si 1 = Some e" and "map_of si 0 = None"
    and "py_max (map fst si) = Inr 1"
    by (simp_all add: py_max_def)
qed

lemma seg_window_single:
  assumes "map fst si = [1::int]"
  shows "seg_window N si 1 1 = Inl (KeyError (MissingInt 0))"
proof -
  from single_segment_keys(1)[OF assms] obtain e where "map_of si 1 = Some e" ..
  with single_segment_keys(2)[OF assms] show ?thesis
    by (simp add: seg_window_def lookup_int_def Let_def)
qed

lemma score_segment_single:
  assumes "map_of seg_info rate = Some si" "map fst si = [1::int]"
  shows "score_segment T N wd ht cur_yuv ref_yuv rate 1 1 (seg_info, w)
           = Inl (KeyError (MissingInt 0))"
  using assms(1) seg_window_single[OF assms(2)]
  by (simp add: score_segment_def lookup_int_def)

lemma score_rep_single:
  assumes "map_of seg_info rate = Some si" "map fst si = [1::int]"
  shows "score_rep T N video_name reps wd ht ref_yuv biggest rate (seg_info, w) =
           (case (if rate = biggest then Inr (ref_yuv, w)
                  else bindE (lookup_int reps rate) (\<lambda>mp4.
                       convert_to_yuv T video_name mp4 wd ht (''video_'' @ str_int rate) w)) of
              Inl e \<Rightarrow> Inl e
            | Inr c \<Rightarrow> Inl (KeyError (MissingInt 0)))"
proof -
  define conv where "conv = (if rate = biggest then Inr (ref_yuv, w)
                  else bindE (lookup_int reps rate) (\<lambda>mp4.
                       convert_to_yuv T video_name mp4 wd ht (''video_'' @ str_int rate) w))"
  have u: "score_rep T N video_name reps wd ht ref_yuv biggest rate (seg_info, w) =
      bindE conv (\<lambda>(cur_yuv, w1).
      bindE (lookup_int seg_info rate) (\<lambda>si.
      bindE (py_max (map fst si)) (\<lambda>segments.
      score_segments T N wd ht cur_yuv ref_yuv rate segments [1..segments] (seg_info, w1))))"
    by (simp add: score_rep_def conv_def)
  have l: "lookup_int seg_info rate = Inr si"
    using assms(1) by (simp add: lookup_int_def)
  have one: "[1..1::int] = [1]" by (simp add: upto_rec1)
  have s: "score_segments T N wd ht cur ref_yuv rate 1 [1..1] (seg_info, w1)
             = Inl (KeyError (MissingInt 0))" for cur w1
    by (simp only: one score_segments.simps score_segment_single[OF assms] bindE_Inl)
  have "bindE conv (\<lambda>(cur_yuv, w1).
      bindE (lookup_int seg_info rate) (\<lambda>si.
      bindE (py_max (map fst si)) (\<lambda>segments.
      score_segments T N wd ht cur_yuv ref_yuv rate segments [1..segments] (seg_info, w1))))
    = (case conv of Inl e \<Rightarrow> Inl e | Inr c \<Rightarrow> Inl (KeyError (MissingInt 0)))"
  proof (cases conv)
    case (Inl e)
    then show ?thesis by simp
  next
    case (Inr c)
    obtain cur w1 where c: "c = (cur, w1)" by (cases c)
    show ?thesis
      by (simp only: Inr c bindE_Inr prod.case l single_segment_keys(3)[OF assms(2)] s sum.case)
  qed
  then show ?thesis by (simp only: u conv_def)
qed

lemma set_vmaf_other:
  "set_vmaf seg_info r seg score = Inr seg_info' \<Longrightarrow> r \<noteq> rate \<Longrightarrow>
     map_of seg_info' rate = map_of seg_info rate"
  by (auto simp: set_vmaf_def bindE_Inr_iff update_conv')

lemma score_segment_other:
  "score_segment T N wd ht cur_yuv ref_yuv r s n (seg_info, w) = Inr (seg_info', w') \<Longrightarrow>
   r \<noteq> rate \<Longrightarrow> map_of seg_info' rate = map_of seg_info rate"
  by (auto simp: score_segment_def bindE_Inr_iff dest: set_vmaf_other)

lemma score_segments_other:
  "score_segments T N wd ht cur_yuv ref_yuv r s ns (seg_info, w) = Inr (seg_info', w') \<Longrightarrow>
   r \<noteq> rate \<Longrightarrow> map_of seg_info' rate = map_of seg_info rate"
proof (induction ns arbitrary: seg_info w)
  case Nil
  then show ?case by simp
next
  case (Cons n ns)
  from Cons.prems(1) obtain seg_info1 w1 where
    a: "score_segment T N wd ht cur_yuv ref_yuv r s n (seg_info, w) = Inr (seg_info1, w1)"
    and b: "score_segments T N wd ht cur_yuv ref_yuv r s ns (seg_info1, w1) = Inr (seg_info', w')"
    by (auto simp: bindE_Inr_iff)
  from Cons.IH[OF b Cons.prems(2)] score_segment_other[OF a Cons.prems(2)]
  show ?case by simp
qed

lemma score_rep_other:
  "score_rep T N video_name reps wd ht ref_yuv biggest r (seg_info, w) = Inr (seg_info', w') \<Longrightarrow>
   r \<noteq> rate \<Longrightarrow> map_of seg_info' rate = map_of seg_info rate"
  by (auto simp: score_rep_def bindE_Inr_iff dest: score_segments_other)

lemma score_reps_single:
  "rate \<in> set rs \<Longrightarrow> map_of seg_info rate = Some si \<Longrightarrow> map fst si = [1::int] \<Longrightarrow>
   \<exists>e. score_reps T N video_name reps wd ht ref_yuv biggest rs (seg_info, w) = Inl e"
proof (induction rs arbitrary: seg_info w)
  case Nil
  then show ?case by simp
next
  case (Cons r rs)
  show ?case
  proof (cases "score_rep T N video_name reps wd ht ref_yuv biggest r (seg_info, w)")
    case (Inl e)
    then show ?thesis by simp
  next
    case (Inr st)
    obtain seg_info1 w1 where st: "st = (seg_info1, w1)" by (cases st)
    have ne: "r \<noteq> rate"
    proof
      assume "r = rate"
      with score_rep_single[OF Cons.prems(2,3), of T N video_name reps wd ht ref_yuv biggest w] Inr
      show False by (simp split: sum.splits)
    qed
    with Cons.prems(1) have mem: "rate \<in> set rs" by simp
    from score_rep_other[OF Inr[unfolded st] ne] Cons.prems(2)
    have "map_of seg_info1 rate = Some si" by simp
    from Cons.IH[OF mem this Cons.prems(3)] Inr st show ?thesis by simp
  qed
qed

lemma compute_vmaf_single:
  assumes "rate \<in> set rates" "map_of seg_info rate = Some si" "map fst si = [1::int]"
    and "\<not> isfile w (''videos/'' @ video_name @ ''/vmaf.json'')"
  shows "\<exists>e. compute_vmaf T N video_name rates reps seg_info info w = Inl e"
proof (cases "compute_vmaf T N video_name rates reps seg_info info w")
  case (Inl e)
  then show ?thesis by simp
next
  case (Inr st)
  with assms(4) obtain wd ht ref_yuv biggest w1 seg_info1 w2 where
    "score_reps T N video_name reps wd ht ref_yuv biggest rates (seg_info, w1)
       = Inr (seg_info1, w2)"
    by (auto simp: compute_vmaf_def Let_def bindE_Inr_iff split: if_splits)
  with score_reps_single[OF assms(1,2,3), of T N video_name reps wd ht ref_yuv biggest w1]
  show ?thesis by simp
qed




text \<open>
  Claim C10. For a representation with one segment only (the keys of its dictionary are
  \<open>[1]\<close>), the window of segment 1 looks up the start of segment 0 and fails with
  \<open>KeyError(0)\<close>. Scoring that representation raises this error as soon as its raw
  buffer is there, and \<open>compute_vmaf\<close>, unless \<open>vmaf.json\<close> exists already, never
  returns normally when such a representation is among the rates.
\<close>

theorem single_segment_lookup_error:
  "map fst si = [1] \<longrightarrow>
     seg_window N si 1 1 = Inl (KeyError (MissingInt 0))
   \<and> (map_of seg_info rate = Some si \<longrightarrow>
        score_rep T N video_name reps wd ht ref_yuv biggest rate (seg_info, w) =
           (case (if rate = biggest then Inr (ref_yuv, w)
                  else bindE (lookup_int reps rate) (\<lambda>mp4.
                       convert_to_yuv T video_name mp4 wd ht (''video_'' @ str_int rate) w)) of
              Inl e \<Rightarrow> Inl e
            | Inr c \<Rightarrow> Inl (KeyError (MissingInt 0)))
      \<and> (rate \<in> set rates \<and> \<not> isfile w0 (''videos/'' @ video_name @ ''/vmaf.json'') \<longrightarrow>
           (\<exists>e. compute_vmaf T N video_name rates reps seg_info info w0 = Inl e)))"
proof (intro impI conjI)
  assume a: "map fst si = [1]"
  show "seg_window N si 1 1 = Inl (KeyError (MissingInt 0))"
    by (rule seg_window_single[OF a])
  assume b: "map_of seg_info rate = Some si"
  show "score_rep T N video_name reps wd ht ref_yuv biggest rate (seg_info, w) =
           (case (if rate = biggest then Inr (ref_yuv, w)
                  else bindE (lookup_int reps rate) (\<lambda>mp4.
                       convert_to_yuv T video_name mp4 wd ht (''video_'' @ str_int rate) w)) of
              Inl e \<Rightarrow> Inl e
            | Inr c \<Rightarrow> Inl (KeyError (MissingInt 0)))"
    by (rule score_rep_single[OF b a])
  assume c: "rate \<in> set rates \<and> \<not> isfile w0 (''videos/'' @ video_name @ ''/vmaf.json'')"
  then show "\<exists>e. compute_vmaf T N video_name rates reps seg_info info w0 = Inl e"
    using compute_vmaf_single[OF _ b a] by simp
qed

theorem single_segment_lookup_error_witness:
  "map fst [(1::int, \<lparr>start_time = 0::real, vmaf = None\<rparr>)] = [1]
   \<and> seg_window exact_num [(1, \<lparr>start_time = 0, vmaf = None\<rparr>)] 1 1
        = Inl (KeyError (MissingInt 0))
   \<and> map_of [(300::int, [(1::int, \<lparr>start_time = 0::real, vmaf = None\<rparr>)])] 300
        = Some [(1, \<lparr>start_time = 0, vmaf = None\<rparr>)]
   \<and> (300::int) \<in> set [300]
   \<and> \<not> isfile demo_scoring_world ''videos/v/vmaf.json''
   \<and> compute_vmaf demo_tools exact_num ''v'' [300]
        [(300, ''videos/v/tmp/rep_300.mp4'')]
        [(300, [(1, \<lparr>start_time = 0, vmaf = None\<rparr>)])]
        [(300, \<lparr>width = 640, height = 360\<rparr>)]
        demo_scoring_world
      = Inl (KeyError (MissingInt 0))"
proof -
  have k: "map fst [(1::int, \<lparr>start_time = 0::real, vmaf = None\<rparr>)] = [1]" by simp
  have a: "seg_window exact_num [(1, \<lparr>start_time = 0, vmaf = None\<rparr>)] 1 1
        = Inl (KeyError (MissingInt 0))"
    by (rule conjunct1[OF mp[OF single_segment_lookup_error[where N = exact_num
      and si = "[(1, \<lparr>start_time = 0, vmaf = None\<rparr>)]"] k]])
  have b: "\<not> isfile demo_scoring_world ''videos/v/vmaf.json''"
    by (simp add: demo_scoring_world_def isfile_def vmaf_bin_def vmaf_model_def)
  have c: "compute_vmaf demo_tools exact_num ''v'' [300]
        [(300, ''videos/v/tmp/rep_300.mp4'')]
        [(300, [(1, \<lparr>start_time = 0, vmaf = None\<rparr>)])]
        [(300, \<lparr>width = 640, height = 360\<rparr>)]
        demo_scoring_world
      = Inl (KeyError (MissingInt 0))"
    by (simp add: compute_vmaf_def score_rep_def score_segment_def seg_window_def
          convert_to_yuv_def demo_scoring_world_def vmaf_bin_def vmaf_model_def upto_rec1
          eval_defs cong: bindE_weak_cong)
  have m: "map_of [(300::int, [(1::int, \<lparr>start_time = 0::real, vmaf = None\<rparr>)])] 300
        = Some [(1, \<lparr>start_time = 0, vmaf = None\<rparr>)]"
    "(300::int) \<in> set [300]"
    by simp_all
  from k a m b c show ?thesis by (intro conjI)
qed


section \<open>Segment start times\<close>

lemma chunk_start_Inr:
  assumes "chunk_start T N segment_dir seg w = Inr (x, w')"
  shows "\<exists>raw ts es timescale earliest.
           run_cmd T (inspect_cmd segment_dir seg) w = Inr (raw, w')
         \<and> get_attr raw ''timescale'' = Inr ts \<and> int_of_str N ts = Some timescale
         \<and> get_attr raw ''earliest_presentation_time'' = Inr es
         \<and> int_of_str N es = Some earliest
         \<and> timescale \<noteq> 0 \<and> true_div N earliest timescale = Some x"
  using assms
  by (auto simp: chunk_start_def bindE_Inr_iff py_int_def py_truediv_def
           split: option.splits if_splits)

lemma update_fresh:
  "k \<notin> fst ` set al \<Longrightarrow> map fst (AList.update k v al) = map fst al @ [k]"
  by (simp add: update_keys)

lemma segment_times_entries:
  "segment_times T N dir segs acc w = Inr (si, w') \<Longrightarrow> distinct segs \<Longrightarrow>
   set segs \<inter> fst ` set acc = {} \<Longrightarrow>
     map fst si = map fst acc @ segs
   \<and> (\<forall>n \<in> set segs. \<exists>wa wb y. chunk_start T N dir n wa = Inr (y, wb)
          \<and> map_of si n = Some \<lparr>start_time = y, vmaf = None\<rparr>)
   \<and> (\<forall>k. k \<notin> set segs \<longrightarrow> map_of si k = map_of acc k)"
proof (induction segs arbitrary: acc w)
  case Nil
  then show ?case by simp
next
  case (Cons seg segs)
  from Cons.prems(1) obtain y w1 where
    c: "chunk_start T N dir seg w = Inr (y, w1)"
    and r: "segment_times T N dir segs
              (AList.update seg \<lparr>start_time = y, vmaf = None\<rparr> acc) w1 = Inr (si, w')"
    by (auto simp: bindE_Inr_iff)
  let ?acc = "AList.update seg \<lparr>start_time = y, vmaf = None\<rparr> acc"
  from Cons.prems(2) have d: "distinct segs" and ns: "seg \<notin> set segs" by simp_all
  from Cons.prems(3) have fresh: "seg \<notin> fst ` set acc" by auto
  have keys: "map fst ?acc = map fst acc @ [seg]" by (rule update_fresh[OF fresh])
  have disj: "set segs \<inter> fst ` set ?acc = {}"
    using Cons.prems(3) ns by (auto simp: dom_update)
  from Cons.IH[OF r d disj] have
    i1: "map fst si = map fst ?acc @ segs"
    and i2: "\<forall>n \<in> set segs. \<exists>wa wb y. chunk_start T N dir n wa = Inr (y, wb)
          \<and> map_of si n = Some \<lparr>start_time = y, vmaf = None\<rparr>"
    and i3: "\<forall>k. k \<notin> set segs \<longrightarrow> map_of si k = map_of ?acc k"
    by simp_all
  have a: "map fst si = map fst acc @ seg # segs" using i1 keys by simp
  from i3 ns have "map_of si seg = Some \<lparr>start_time = y, vmaf = None\<rparr>"
    by (simp add: update_conv')
  with c have here: "\<exists>wa wb y. chunk_start T N dir seg wa = Inr (y, wb)
          \<and> map_of si seg = Some \<lparr>start_time = y, vmaf = None\<rparr>" by blast
  have b: "\<forall>n \<in> set (seg # segs). \<exists>wa wb y. chunk_start T N dir n wa = Inr (y, wb)
          \<and> map_of si n = Some \<lparr>start_time = y, vmaf = None\<rparr>"
    using here i2 by simp
  have c3: "\<forall>k. k \<notin> set (seg # segs) \<longrightarrow> map_of si k = map_of acc k"
    using i3 by (simp add: update_conv')
  from a b c3 show ?case by (intro conjI)
qed

lemma segment_rep_entries:
  assumes "segment_rep T N video_name rep_mp4 rate seg_s w = Inr (si, w')"
  shows "\<exists>segments. map fst si = [1..segments]
          \<and> (\<forall>n \<in> set [1..segments]. \<exists>wa wb y.
                chunk_start T N (''videos/'' @ video_name @ ''/tracks/video_'' @ str_int rate)
                  n wa = Inr (y, wb)
              \<and> map_of si n = Some \<lparr>start_time = y, vmaf = None\<rparr>)"
proof -
  from assms obtain segments w8 where
    "segment_times T N (''videos/'' @ video_name @ ''/tracks/video_'' @ str_int rate)
       [1..segments] [] w8 = Inr (si, w')"
    by (auto simp: segment_rep_def Let_def bindE_Inr_iff)
  from segment_times_entries[OF this] show ?thesis by auto
qed

text \<open>
  Claim C7. The start time that \<open>segment_rep\<close> reports for a chunk is
  \<open>earliest_presentation_time / timescale\<close>, both read with \<open>get_attr\<close> and \<open>int\<close> from
  the output of the inspection command of that chunk (the line of its segment index
  box); \<open>segment_rep\<close> reports such a start time for each of the chunks \<open>1..segments\<close>
  and for nothing else.
\<close>

theorem segment_start_times:
  "(chunk_start T N segment_dir seg w = Inr (x, w') \<longrightarrow>
      (\<exists>raw ts es timescale earliest.
           run_cmd T (inspect_cmd segment_dir seg) w = Inr (raw, w')
         \<and> get_attr raw ''timescale'' = Inr ts \<and> int_of_str N ts = Some timescale
         \<and> get_attr raw ''earliest_presentation_time'' = Inr es
         \<and> int_of_str N es = Some earliest
         \<and> timescale \<noteq> 0 \<and> true_div N earliest timescale = Some x))
   \<and> (segment_rep T N video_name rep_mp4 rate seg_s w0 = Inr (si, w1) \<longrightarrow>
      (\<exists>segments. map fst si = [1..segments]
          \<and> (\<forall>n \<in> set [1..segments]. \<exists>wa wb y.
                chunk_start T N (''videos/'' @ video_name @ ''/tracks/video_'' @ str_int rate)
                  n wa = Inr (y, wb)
              \<and> map_of si n = Some \<lparr>start_time = y, vmaf = None\<rparr>)))"
  using chunk_start_Inr[of T N segment_dir seg w x w']
    segment_rep_entries[of T N video_name rep_mp4 rate seg_s w0 si w1]
  by (intro conjI impI) assumption+

lemmas get_attr_demo =
  get_attr_def py_split_def py_nth_def split_from.simps demo_sidx_def

theorem segment_start_times_witness:
  "(\<exists>w' raw ts es timescale earliest.
       chunk_start demo_tools exact_num ''videos/v/tracks/video_300'' 2 demo_world = Inr (5, w')
     \<and> run_cmd demo_tools (inspect_cmd ''videos/v/tracks/video_300'' 2) demo_world = Inr (raw, w')
     \<and> get_attr raw ''timescale'' = Inr ts \<and> int_of_str exact_num ts = Some timescale
     \<and> get_attr raw ''earliest_presentation_time'' = Inr es
     \<and> int_of_str exact_num es = Some earliest
     \<and> timescale \<noteq> 0 \<and> true_div exact_num earliest timescale = Some 5)
   \<and> get_attr (demo_sidx ''61440'') ''timescale'' = Inr ''12288''
   \<and> get_attr (demo_sidx ''61440'') ''earliest_presentation_time'' = Inr ''61440''
   \<and> true_div exact_num 61440 12288 = Some 5
   \<and> (\<exists>w1. segment_rep demo_tools exact_num ''v'' ''videos/v/tmp/rep_300.mp4'' 300 5 demo_world
         = Inr ([(1, \<lparr>start_time = 0, vmaf = None\<rparr>), (2, \<lparr>start_time = 5, vmaf = None\<rparr>)], w1))"
proof -
  have "\<exists>w'. chunk_start demo_tools exact_num ''videos/v/tracks/video_300'' 2 demo_world
          = Inr (5, w')"
    by (simp add: chunk_start_def inspect_cmd_def eval_defs cong: bindE_weak_cong)
  then obtain w' where
    c: "chunk_start demo_tools exact_num ''videos/v/tracks/video_300'' 2 demo_world = Inr (5, w')"
    by (elim exE)
  from mp[OF conjunct1[OF segment_start_times[where T = demo_tools and N = exact_num]] c]
  have a: "\<exists>w' raw ts es timescale earliest.
       chunk_start demo_tools exact_num ''videos/v/tracks/video_300'' 2 demo_world = Inr (5, w')
     \<and> run_cmd demo_tools (inspect_cmd ''videos/v/tracks/video_300'' 2) demo_world = Inr (raw, w')
     \<and> get_attr raw ''timescale'' = Inr ts \<and> int_of_str exact_num ts = Some timescale
     \<and> get_attr raw ''earliest_presentation_time'' = Inr es
     \<and> int_of_str exact_num es = Some earliest
     \<and> timescale \<noteq> 0 \<and> true_div exact_num earliest timescale = Some 5"
    using c by blast
  have g: "get_attr (demo_sidx ''61440'') ''timescale'' = Inr ''12288''"
    "get_attr (demo_sidx ''61440'') ''earliest_presentation_time'' = Inr ''61440''"
    by (simp_all add: get_attr_demo cong: bindE_weak_cong)
  have d: "true_div exact_num 61440 12288 = Some 5"
    by (simp add: exact_num_def)
  have s: "\<exists>w1. segment_rep demo_tools exact_num ''v'' ''videos/v/tmp/rep_300.mp4'' 300 5 demo_world
         = Inr ([(1, \<lparr>start_time = 0, vmaf = None\<rparr>), (2, \<lparr>start_time = 5, vmaf = None\<rparr>)], w1)"
    by (simp only: demo_segment_rep_300) (rule exI, rule refl)
  from a g d s show ?thesis by (intro conjI)
qed

section \<open>The encoder command\<close>

lemma transcode_loop_cmds:
  "transcode_loop T src_mp4 out_dir fps gop rs m w = Inr (m', w') \<Longrightarrow>
   \<exists>encoded. set encoded \<subseteq> set rs
      \<and> cmds w' = cmds w @ map (\<lambda>r. encode_cmd src_mp4 (rep_path out_dir r) fps gop r) encoded"
proof (induction rs arbitrary: m w)
  case Nil
  then show ?case by simp
next
  case (Cons r rs)
  show ?case
  proof (cases "isfile w (rep_path out_dir r)")
    case True
    with Cons.prems have
      "transcode_loop T src_mp4 out_dir fps gop rs (AList.update r (rep_path out_dir r) m) w
         = Inr (m', w')"
      by (simp add: Let_def)
    from Cons.IH[OF this] obtain encoded where
      "set encoded \<subseteq> set rs"
      "cmds w' = cmds w @ map (\<lambda>r. encode_cmd src_mp4 (rep_path out_dir r) fps gop r) encoded"
      by (elim exE conjE)
    then have "set encoded \<subseteq> set (r # rs)
      \<and> cmds w' = cmds w @ map (\<lambda>r. encode_cmd src_mp4 (rep_path out_dir r) fps gop r) encoded"
      by auto
    then show ?thesis by (rule exI)
  next
    case False
    with Cons.prems obtain out w1 where
      c: "run_cmd T (encode_cmd src_mp4 (rep_path out_dir r) fps gop r) w = Inr (out, w1)"
      and l: "transcode_loop T src_mp4 out_dir fps gop rs
                (AList.update r (rep_path out_dir r) m) w1 = Inr (m', w')"
      by (auto simp: Let_def bindE_Inr_iff)
    from Cons.IH[OF l] obtain encoded where
      e: "set encoded \<subseteq> set rs"
      "cmds w' = cmds w1 @ map (\<lambda>r. encode_cmd src_mp4 (rep_path out_dir r) fps gop r) encoded"
      by (elim exE conjE)
    from run_cmd_Inr[OF c] e have "set (r # encoded) \<subseteq> set (r # rs)
      \<and> cmds w' = cmds w @ map (\<lambda>r. encode_cmd src_mp4 (rep_path out_dir r) fps gop r)
                                (r # encoded)"
      by auto
    then show ?thesis by (rule exI)
  qed
qed

text \<open>
  Claim C8. Every command that \<open>transcode_h264_reps\<close> runs is the encoder command of one
  of the rates, built with \<open>gop = fps * seg_s\<close>; the command passes this value both as
  \<open>-g\<close> and as \<open>-keyint_min\<close>, with \<open>-sc_threshold 0\<close>. For 24 frames per second and
  segments of 5 seconds the value is 120.
\<close>

theorem encoder_keyframe_interval:
  "(transcode_h264_reps T src_mp4 out_dir rates fps seg_s w = Inr (out_map, w') \<longrightarrow>
      (\<exists>encoded. set encoded \<subseteq> set rates
         \<and> cmds w' = cmds w @
              map (\<lambda>r. encode_cmd src_mp4 (rep_path out_dir r) fps (fps * seg_s) r) encoded))
   \<and> encode_cmd src_mp4 out_mp4 fps gop r =
       (''ffmpeg -y -i '' @ [CHR 0x22] @ src_mp4 @ [CHR 0x22] @
        '' -an -c:v libx264 -preset slow -r '' @ str_int fps @ '' '') @
       (''-g '' @ str_int gop @ '' -keyint_min '' @ str_int gop @ '' -sc_threshold 0 '') @
       (''-b:v '' @ str_int r @ ''k -maxrate '' @ str_int (2 * r) @ ''k -bufsize '' @
        str_int (4 * r) @ ''k '' @ [CHR 0x22] @ out_mp4 @ [CHR 0x22])
   \<and> str_int (24 * 5) = ''120''"
proof (intro conjI impI)
  assume "transcode_h264_reps T src_mp4 out_dir rates fps seg_s w = Inr (out_map, w')"
  then have "transcode_loop T src_mp4 out_dir fps (fps * seg_s) rates [] w = Inr (out_map, w')"
    by (simp add: transcode_h264_reps_def ensure_dir_def Let_def)
  then show "\<exists>encoded. set encoded \<subseteq> set rates
         \<and> cmds w' = cmds w @
              map (\<lambda>r. encode_cmd src_mp4 (rep_path out_dir r) fps (fps * seg_s) r) encoded"
    by (rule transcode_loop_cmds)
next
  show "encode_cmd src_mp4 out_mp4 fps gop r =
       (''ffmpeg -y -i '' @ [CHR 0x22] @ src_mp4 @ [CHR 0x22] @
        '' -an -c:v libx264 -preset slow -r '' @ str_int fps @ '' '') @
       (''-g '' @ str_int gop @ '' -keyint_min '' @ str_int gop @ '' -sc_threshold 0 '') @
       (''-b:v '' @ str_int r @ ''k -maxrate '' @ str_int (2 * r) @ ''k -bufsize '' @
        str_int (4 * r) @ ''k '' @ [CHR 0x22] @ out_mp4 @ [CHR 0x22])"
    by (simp add: encode_cmd_def)
next
  show "str_int (24 * 5) = ''120''"
    by (simp add: str_int_def digits.simps)
qed

theorem encoder_keyframe_interval_witness:
  \<open>(\<exists>out_map w'.
       transcode_h264_reps demo_tools ''in.mp4'' ''videos/v/tmp'' [300, 600] 24 5
         \<lparr>files = Map.empty, cmds = []\<rparr> = Inr (out_map, w')
     \<and> cmds w' =
         [''ffmpeg -y -i "in.mp4" -an -c:v libx264 -preset slow -r 24 '' @
          ''-g 120 -keyint_min 120 -sc_threshold 0 '' @
          ''-b:v 300k -maxrate 600k -bufsize 1200k "videos/v/tmp/rep_300.mp4"'',
          ''ffmpeg -y -i "in.mp4" -an -c:v libx264 -preset slow -r 24 '' @
          ''-g 120 -keyint_min 120 -sc_threshold 0 '' @
          ''-b:v 600k -maxrate 1200k -bufsize 2400k "videos/v/tmp/rep_600.mp4"''])\<close>
proof -
  have "\<exists>out_map w'.
       transcode_h264_reps demo_tools ''in.mp4'' ''videos/v/tmp'' [300, 600] 24 5
         \<lparr>files = Map.empty, cmds = []\<rparr> = Inr (out_map, w')"
    by (simp add: transcode_h264_reps_def rep_path_def encode_cmd_def eval_defs
          cong: bindE_weak_cong)
  then obtain out_map w' where
    t: "transcode_h264_reps demo_tools ''in.mp4'' ''videos/v/tmp'' [300, 600] 24 5
         \<lparr>files = Map.empty, cmds = []\<rparr> = Inr (out_map, w')"
    by (elim exE)
  from mp[OF conjunct1[OF encoder_keyframe_interval] t] obtain encoded where
    e: "set encoded \<subseteq> set [300, 600]"
       "cmds w' = cmds \<lparr>files = Map.empty, cmds = []\<rparr> @
          map (\<lambda>r. encode_cmd ''in.mp4'' (rep_path ''videos/v/tmp'' r) 24 (24 * 5) r) encoded"
    by (elim exE conjE)
  from t have "cmds w' =
         [encode_cmd ''in.mp4'' (rep_path ''videos/v/tmp'' 300) 24 (24 * 5) 300,
          encode_cmd ''in.mp4'' (rep_path ''videos/v/tmp'' 600) 24 (24 * 5) 600]"
    by (auto simp add: transcode_h264_reps_def eval_defs cong: bindE_weak_cong)
  then have \<open>cmds w' =
         [''ffmpeg -y -i "in.mp4" -an -c:v libx264 -preset slow -r 24 '' @
          ''-g 120 -keyint_min 120 -sc_threshold 0 '' @
          ''-b:v 300k -maxrate 600k -bufsize 1200k "videos/v/tmp/rep_300.mp4"'',
          ''ffmpeg -y -i "in.mp4" -an -c:v libx264 -preset slow -r 24 '' @
          ''-g 120 -keyint_min 120 -sc_threshold 0 '' @
          ''-b:v 600k -maxrate 1200k -bufsize 2400k "videos/v/tmp/rep_600.mp4"'']\<close>
    using e by (simp add: rep_path_def encode_cmd_def path_join_def str_int_def digits.simps)
  with t show ?thesis by (intro exI conjI)
qed

section \<open>Running the pipeline again\<close>

lemma transcode_loop_skip:
  "\<forall>r \<in> set rs. isfile w (rep_path out_dir r) \<Longrightarrow>
   \<exists>m'. transcode_loop T src_mp4 out_dir fps gop rs m w = Inr (m', w)
       \<and> (\<forall>r \<in> set rs. map_of m' r = Some (rep_path out_dir r))
       \<and> (\<forall>k. k \<notin> set rs \<longrightarrow> map_of m' k = map_of m k)"
proof (induction rs arbitrary: m)
  case Nil
  then show ?case by simp
next
  case (Cons r rs)
  from Cons.prems have here: "isfile w (rep_path out_dir r)"
    and rest: "\<forall>r \<in> set rs. isfile w (rep_path out_dir r)" by simp_all
  from Cons.IH[OF rest, of "AList.update r (rep_path out_dir r) m"] obtain m' where
    l: "transcode_loop T src_mp4 out_dir fps gop rs (AList.update r (rep_path out_dir r) m) w
          = Inr (m', w)"
    and a: "\<forall>r \<in> set rs. map_of m' r = Some (rep_path out_dir r)"
    and b: "\<forall>k. k \<notin> set rs \<longrightarrow>
              map_of m' k = map_of (AList.update r (rep_path out_dir r) m) k"
    by (elim exE conjE)
  have 1: "transcode_loop T src_mp4 out_dir fps gop (r # rs) m w = Inr (m', w)"
    using here l by (simp add: Let_def)
  have 2: "\<forall>x \<in> set (r # rs). map_of m' x = Some (rep_path out_dir x)"
  proof
    fix x assume x: "x \<in> set (r # rs)"
    show "map_of m' x = Some (rep_path out_dir x)"
    proof (cases "x \<in> set rs")
      case True
      with a show ?thesis by simp
    next
      case False
      with x have "x = r" by simp
      with False b show ?thesis by (simp add: update_conv')
    qed
  qed
  have 3: "\<forall>k. k \<notin> set (r # rs) \<longrightarrow> map_of m' k = map_of m k"
    using b by (simp add: update_conv')
  from 1 2 3 show ?case by (intro exI conjI)
qed

lemma compute_vmaf_skip:
  "isfile w (''videos/'' @ video_name @ ''/vmaf.json'') \<Longrightarrow>
   compute_vmaf T N video_name rates reps seg_info info w = Inr (seg_info, w)"
  by (simp add: compute_vmaf_def Let_def)

lemma rm_Inr: "rm T p w = Inr w' \<Longrightarrow> cmds w' = cmds w @ [''rm -rf '' @ [CHR 0x22] @ p @ [CHR 0x22] @ '' || true'']"
  by (auto simp: rm_def bindE_Inr_iff dest!: run_cmd_Inr)

lemma chunk_start_cmds:
  "chunk_start T N dir seg w = Inr (x, w') \<Longrightarrow> cmds w' = cmds w @ [inspect_cmd dir seg]"
  by (auto simp: chunk_start_def bindE_Inr_iff dest!: run_cmd_Inr)

lemma segment_times_cmds:
  "segment_times T N dir segs acc w = Inr (si, w') \<Longrightarrow>
   cmds w' = cmds w @ map (inspect_cmd dir) segs"
proof (induction segs arbitrary: acc w)
  case Nil
  then show ?case by simp
next
  case (Cons seg segs)
  from Cons.prems obtain y w1 where
    c: "chunk_start T N dir seg w = Inr (y, w1)"
    and r: "segment_times T N dir segs
              (AList.update seg \<lparr>start_time = y, vmaf = None\<rparr> acc) w1 = Inr (si, w')"
    by (auto simp: bindE_Inr_iff)
  from Cons.IH[OF r] chunk_start_cmds[OF c] show ?case by simp
qed

lemma segment_rep_cmds:
  assumes "segment_rep T N video_name rep_mp4 rate seg_s w = Inr (si, w')"
  shows "\<exists>rest. cmds w' = cmds w @
           [''rm -rf '' @ [CHR 0x22] @ ''videos/'' @ video_name @ ''/tracks/video_'' @ str_int rate
              @ [CHR 0x22] @ '' || true'',
            ''rm -rf '' @ [CHR 0x22] @ ''videos/'' @ video_name @ ''/tmp/mp4box_'' @ str_int rate
              @ [CHR 0x22] @ '' || true'',
            dash_cmd (''videos/'' @ video_name @ ''/tmp/mp4box_'' @ str_int rate)
              (seg_s * 1000) (abspath T rep_mp4)] @ rest"
  using assms
  by (auto simp: segment_rep_def Let_def bindE_Inr_iff ensure_dir_def
           dest!: run_cmd_Inr rm_Inr segment_times_cmds)


text \<open>
  Claim C9, as amended. On a second run, \<open>transcode_h264_reps\<close> skips every rate whose
  encoded file exists: when all of them exist it runs no command and changes no file,
  and returns the paths of the existing files. \<open>compute_vmaf\<close> returns at once, with
  nothing changed, when \<open>vmaf.json\<close> exists. \<open>segment_rep\<close> has no such test: whenever it
  returns it has removed the segment directory of the rate and run the segmenter
  again.
\<close>

theorem rerun_skips_encoding_and_scoring:
  "((\<forall>r \<in> set rates. isfile w (rep_path out_dir r)) \<longrightarrow>
      (\<exists>out_map. transcode_h264_reps T src_mp4 out_dir rates fps seg_s w = Inr (out_map, w)
         \<and> (\<forall>r \<in> set rates. map_of out_map r = Some (rep_path out_dir r))))
   \<and> (isfile w (rep_path out_dir r) \<longrightarrow>
        transcode_loop T src_mp4 out_dir fps gop (r # rs) m w =
        transcode_loop T src_mp4 out_dir fps gop rs (AList.update r (rep_path out_dir r) m) w)
   \<and> (isfile w (''videos/'' @ video_name @ ''/vmaf.json'') \<longrightarrow>
        compute_vmaf T N video_name rates reps seg_info info w = Inr (seg_info, w))
   \<and> (segment_rep T N video_name rep_mp4 rate seg_s w = Inr (si, w') \<longrightarrow>
        (\<exists>rest. cmds w' = cmds w @
           [''rm -rf '' @ [CHR 0x22] @ ''videos/'' @ video_name @ ''/tracks/video_'' @ str_int rate
              @ [CHR 0x22] @ '' || true'',
            ''rm -rf '' @ [CHR 0x22] @ ''videos/'' @ video_name @ ''/tmp/mp4box_'' @ str_int rate
              @ [CHR 0x22] @ '' || true'',
            dash_cmd (''videos/'' @ video_name @ ''/tmp/mp4box_'' @ str_int rate)
              (seg_s * 1000) (abspath T rep_mp4)] @ rest))"
proof (intro conjI impI)
  assume "\<forall>r \<in> set rates. isfile w (rep_path out_dir r)"
  from transcode_loop_skip[OF this, of T src_mp4 fps "fps * seg_s" "[]"]
  obtain m' where
    "transcode_loop T src_mp4 out_dir fps (fps * seg_s) rates [] w = Inr (m', w)"
    "\<forall>r \<in> set rates. map_of m' r = Some (rep_path out_dir r)"
    by (elim exE conjE)
  then have "transcode_h264_reps T src_mp4 out_dir rates fps seg_s w = Inr (m', w)
         \<and> (\<forall>r \<in> set rates. map_of m' r = Some (rep_path out_dir r))"
    by (simp add: transcode_h264_reps_def ensure_dir_def Let_def)
  then show "\<exists>out_map. transcode_h264_reps T src_mp4 out_dir rates fps seg_s w = Inr (out_map, w)
         \<and> (\<forall>r \<in> set rates. map_of out_map r = Some (rep_path out_dir r))"
    by (rule exI)
next
  assume "isfile w (rep_path out_dir r)"
  then show "transcode_loop T src_mp4 out_dir fps gop (r # rs) m w =
        transcode_loop T src_mp4 out_dir fps gop rs (AList.update r (rep_path out_dir r) m) w"
    by (simp add: Let_def)
next
  assume "isfile w (''videos/'' @ video_name @ ''/vmaf.json'')"
  then show "compute_vmaf T N video_name rates reps seg_info info w = Inr (seg_info, w)"
    by (rule compute_vmaf_skip)
next
  assume "segment_rep T N video_name rep_mp4 rate seg_s w = Inr (si, w')"
  then show "\<exists>rest. cmds w' = cmds w @
           [''rm -rf '' @ [CHR 0x22] @ ''videos/'' @ video_name @ ''/tracks/video_'' @ str_int rate
              @ [CHR 0x22] @ '' || true'',
            ''rm -rf '' @ [CHR 0x22] @ ''videos/'' @ video_name @ ''/tmp/mp4box_'' @ str_int rate
              @ [CHR 0x22] @ '' || true'',
            dash_cmd (''videos/'' @ video_name @ ''/tmp/mp4box_'' @ str_int rate)
              (seg_s * 1000) (abspath T rep_mp4)] @ rest"
    by (rule segment_rep_cmds)
qed

lemma demo_rep_files:
  "isfile demo_world (rep_path ''videos/v/tmp'' 300)"
  "isfile demo_world (rep_path ''videos/v/tmp'' 600)"
  "isfile demo_world ''videos/v/vmaf.json''"
  "isfile demo_world ''videos/v/tracks/video_300/1.m4s''"
  "isfile demo_world ''videos/v/tracks/video_600/1.m4s''"
  "isfile demo_world ''videos/v/tracks/manifest.mpd''"
  by (simp_all add: rep_path_def eval_defs)

end
